(* ===== verification/Prelude.thy ===== *)
theory Prelude
  imports Complex_Main
begin

text \<open>
  Shared vocabulary of the Weather-Now development: the JavaScript idioms the two
  source files rely on (truthiness of strings, \<open>Array.prototype.join\<close>,
  \<open>String.prototype.trim\<close>, array reads that yield \<open>undefined\<close> out of range,
  \<open>split(",")[0]\<close>), the outcome of an HTTP call made with \<open>fetch\<close>, and the
  generic list lemmas the component theories use.  Strings are byte strings
  (\<open>char list\<close>, UTF-8): every separator the code splits or joins on is ASCII,
  and an ASCII byte never occurs inside a multi-byte UTF-8 sequence, so
  splitting and joining bytes agrees with splitting and joining UTF-16 code
  units as JavaScript does.
\<close>

named_theorems js_simps "evaluation rules of the JavaScript helper functions"
named_theorems state_simps "field equations of the WeatherCard handlers"

type_synonym coord = real

subsection \<open>Outcome of a \<open>fetch\<close> call\<close>

text \<open>
  \<open>fetch(url)\<close> either rejects (network failure: \<open>Transport_error\<close>) or
  resolves to a response with its \<open>ok\<close> flag; reading the body with
  \<open>res.json()\<close> yields the parsed value, or \<open>None\<close> when it rejects
  (malformed JSON) or is not an object.
\<close>

datatype 'j response = Transport_error | Http_response (resp_ok: bool) (resp_body: "'j option")

subsection \<open>JavaScript truthiness and arrays\<close>

text \<open>A string field of a JSON object is \<open>undefined\<close>/\<open>null\<close> (\<open>None\<close>) or a
  string; it is truthy iff it is a non-empty string.\<close>

definition truthy :: "string option \<Rightarrow> bool" where
  "truthy v = (case v of None \<Rightarrow> False | Some s \<Rightarrow> s \<noteq> [])"

text \<open>\<open>xs.filter(Boolean)\<close> over optional strings, keeping the strings.\<close>

fun filter_truthy :: "string option list \<Rightarrow> string list" where
  "filter_truthy [] = []"
| "filter_truthy (v # vs) =
     (case v of Some s \<Rightarrow> (if s = [] then filter_truthy vs else s # filter_truthy vs)
              | None \<Rightarrow> filter_truthy vs)"

text \<open>\<open>xs.join(sep)\<close>.\<close>

fun join :: "string \<Rightarrow> string list \<Rightarrow> string" where
  "join sep [] = []"
| "join sep [x] = x"
| "join sep (x # y # xs) = x @ sep @ join sep (y # xs)"

text \<open>\<open>a[i]\<close>: \<open>undefined\<close> (here \<open>None\<close>) outside the array.\<close>

definition js_nth :: "'a list \<Rightarrow> nat \<Rightarrow> 'a option" where
  "js_nth xs i = (if i < length xs then Some (xs ! i) else None)"

text \<open>Removing the \<open>i\<close>-th element of a list (a task that has completed).\<close>

definition drop_at :: "nat \<Rightarrow> 'a list \<Rightarrow> 'a list" where
  "drop_at i xs = take i xs @ drop (Suc i) xs"

subsection \<open>Strings\<close>

text \<open>The white space \<open>String.prototype.trim\<close> removes, restricted to the
  ASCII range: tab, line feed, vertical tab, form feed, carriage return, space.\<close>

definition is_js_space :: "char \<Rightarrow> bool" where
  "is_js_space c = (c \<in> set [CHR 0x09, CHR 0x0A, CHR 0x0B, CHR 0x0C, CHR 0x0D, CHR 0x20])"

definition js_trim :: "string \<Rightarrow> string" where
  "js_trim s = rev (dropWhile is_js_space (rev (dropWhile is_js_space s)))"

text \<open>\<open>s.split(",")[0]\<close>: the text before the first comma, or all of it.\<close>

definition split_first :: "char \<Rightarrow> string \<Rightarrow> string" where
  "split_first c s = takeWhile (\<lambda>x. x \<noteq> c) s"

text \<open>A non-negative integer as JavaScript prints it (\<open>String(n)\<close>): its
  decimal digits.\<close>

fun decimal :: "nat \<Rightarrow> string" where
  "decimal n = (if n < 10 then [char_of (48 + n)] else decimal (n div 10) @ [char_of (48 + n mod 10)])"

subsection \<open>Lemmas\<close>

lemma truthy_Some [simp, js_simps]: "truthy (Some s) \<longleftrightarrow> s \<noteq> []"
  by (simp add: truthy_def)

lemma truthy_None [simp, js_simps]: "\<not> truthy None"
  by (simp add: truthy_def)

lemma truthy_iff: "truthy v \<longleftrightarrow> (\<exists>s. v = Some s \<and> s \<noteq> [])"
  by (cases v) simp_all

lemma filter_truthy_append [simp]:
  "filter_truthy (xs @ ys) = filter_truthy xs @ filter_truthy ys"
  by (induction xs) (auto split: option.splits)

lemma filter_truthy_nonempty: "s \<in> set (filter_truthy vs) \<Longrightarrow> s \<noteq> []"
  by (induction vs rule: filter_truthy.induct) (auto split: option.splits if_splits)

lemma filter_truthy_Cons_truthy [simp]:
  "truthy v \<Longrightarrow> filter_truthy (v # vs) = the v # filter_truthy vs"
  by (auto simp: truthy_iff)

lemma filter_truthy_Cons_falsy [simp]:
  "\<not> truthy v \<Longrightarrow> filter_truthy (v # vs) = filter_truthy vs"
  by (cases v) auto

lemma join_Cons_Cons [simp]: "join sep (x # y # xs) = x @ sep @ join sep (y # xs)"
  by simp

lemma join_prefix: "xs \<noteq> [] \<Longrightarrow> \<exists>r. join sep xs = hd xs @ r"
  by (induction sep xs rule: join.induct) auto

lemma join_empty_iff: "join sep xs = [] \<longleftrightarrow> (\<forall>x\<in>set xs. x = []) \<and> (length xs \<le> 1 \<or> sep = [])"
  by (induction sep xs rule: join.induct) auto

lemma join_first_segment:
  assumes "c \<notin> set x" and "sep \<noteq> []" and "hd sep = c"
  shows "takeWhile (\<lambda>z. z \<noteq> c) (join sep (x # xs)) = x"
proof (cases xs)
  case Nil
  with assms(1) show ?thesis by (auto simp: takeWhile_eq_all_conv)
next
  case (Cons y ys)
  from assms(2,3) obtain t where "sep = c # t" by (cases sep) auto
  then have "join sep (x # xs) = x @ c # t @ join sep xs"
    using Cons by simp
  moreover have "takeWhile (\<lambda>z. z \<noteq> c) (x @ c # r) = x" for r
    using assms(1) by (subst takeWhile_append2) auto
  ultimately show ?thesis by simp
qed

lemma js_nth_Some [simp, js_simps]: "i < length xs \<Longrightarrow> js_nth xs i = Some (xs ! i)"
  by (simp add: js_nth_def)

lemma js_nth_None [simp, js_simps]: "length xs \<le> i \<Longrightarrow> js_nth xs i = None"
  by (simp add: js_nth_def)

lemma js_nth_map: "js_nth (map f xs) i = map_option f (js_nth xs i)"
  by (simp add: js_nth_def)

lemma length_drop_at [simp]: "i < length xs \<Longrightarrow> length (drop_at i xs) = length xs - 1"
  by (simp add: drop_at_def)

lemma set_drop_at_subset: "set (drop_at i xs) \<subseteq> set xs"
  by (auto simp: drop_at_def dest: in_set_takeD in_set_dropD)

lemma drop_at_append_last [simp]: "drop_at (length xs) (xs @ x # ys) = xs @ ys"
  by (simp add: drop_at_def)

lemma in_set_drop_at: "x \<in> set (drop_at i xs) \<Longrightarrow> x \<in> set xs"
  using set_drop_at_subset by fast

lemma in_set_drop_at_other:
  assumes "x \<in> set xs" and "x \<noteq> xs ! i"
  shows "x \<in> set (drop_at i xs)"
proof (cases "i < length xs")
  case True
  then have "xs = take i xs @ xs ! i # drop (Suc i) xs" by (simp add: id_take_nth_drop)
  with assms have "x \<in> set (take i xs) \<or> x \<in> set (drop (Suc i) xs)"
    by (metis Un_iff set_ConsD set_append)
  then show ?thesis by (auto simp: drop_at_def)
next
  case False
  with assms(1) show ?thesis by (simp add: drop_at_def)
qed

lemma js_nth_Some_iff: "js_nth xs i = Some t \<longleftrightarrow> i < length xs \<and> xs ! i = t"
  by (auto simp: js_nth_def)

lemma js_nth_append_length [simp]: "js_nth (xs @ x # ys) (length xs) = Some x"
  by (simp add: js_nth_def)

lemma dropWhile_all_iff: "(\<forall>c\<in>set (dropWhile P s). P c) \<longleftrightarrow> (\<forall>c\<in>set s. P c)"
  by (induction s) auto

lemma js_trim_empty_iff: "js_trim s = [] \<longleftrightarrow> (\<forall>c\<in>set s. is_js_space c)"
  by (simp add: js_trim_def dropWhile_all_iff)

lemma split_first_no_sep: "c \<notin> set (split_first c s)"
  by (auto simp: split_first_def dest: set_takeWhileD)

lemma split_first_prefix: "split_first c s @ dropWhile (\<lambda>x. x \<noteq> c) s = s"
  by (simp add: split_first_def)

end
