(* ===== verification/Location.thy ===== *)
theory Location
  imports Prelude
begin

text \<open>
  The location resolver of \<open>src/src/components/WeatherCard.jsx\<close>: the label
  formatter \<open>formatLocationLabel\<close> (lines 60--66), the forward geocoder
  \<open>resolveCity\<close> (lines 132--146) and the best-effort reverse geocoder
  \<open>reverseLabel\<close> (lines 148--159).  Both geocoders read the Open-Meteo
  geocoding answer \<open>{results: [{name, admin1, country, latitude, longitude}]}\<close>;
  the network call itself is an input of type \<open>geo_json response\<close>.
  \<open>resolveCity\<close> throws, modelled as the \<open>Inl\<close> branch of a sum;
  \<open>reverseLabel\<close> absorbs every failure into \<open>None\<close> (JavaScript \<open>null\<close>).
\<close>

subsection \<open>Data\<close>

text \<open>One entry of \<open>results\<close>: the optional string fields are \<open>None\<close> when
  absent or \<open>null\<close>.\<close>

record geo_result =
  name :: "string option"
  admin1 :: "string option"
  country :: "string option"
  latitude :: coord
  longitude :: coord

text \<open>The parsed body: \<open>results\<close> is absent (\<open>None\<close>) or an array whose
  entries may be \<open>null\<close> (\<open>None\<close>).\<close>

record geo_json =
  results :: "geo_result option list option"

text \<open>Why \<open>resolveCity\<close> throws: \<open>new Error("Geocoding request failed")\<close>,
  \<open>new Error("City not found")\<close>, or an exception raised by the platform
  (\<open>fetch\<close> rejecting, \<open>res.json()\<close> rejecting, reading \<open>latitude\<close> of a
  \<open>null\<close> entry), whose message (\<open>"Failed to fetch"\<close>, a \<open>SyntaxError\<close> or
  \<open>TypeError\<close> text) is never \<open>"City not found"\<close>.\<close>

datatype geo_error = Geocoding_request_failed | City_not_found | Geo_platform_error

text \<open>The \<open>message\<close> of the thrown error, as far as \<open>onSearch\<close> inspects it.\<close>

definition geo_error_message :: "geo_error \<Rightarrow> string" where
  "geo_error_message e = (case e of
      Geocoding_request_failed \<Rightarrow> ''Geocoding request failed''
    | City_not_found \<Rightarrow> ''City not found''
    | Geo_platform_error \<Rightarrow> ''TypeError'')"

subsection \<open>Operations\<close>

text \<open>The separator \<open>",\n"\<close> of the label.\<close>

definition label_sep :: string where
  "label_sep = [CHR '','', CHR 0x0A]"

definition formatLocationLabel :: "geo_result option \<Rightarrow> string" where
  "formatLocationLabel ro = (case ro of
      None \<Rightarrow> ''Unknown location''
    | Some r \<Rightarrow>
        (let parts = [name r]
                     @ (if truthy (admin1 r) \<and> admin1 r \<noteq> name r then [admin1 r] else [])
                     @ (if truthy (country r) then [country r] else [])
         in join label_sep (filter_truthy parts)))"

definition resolveCity :: "geo_json response \<Rightarrow> geo_error + (coord \<times> coord \<times> string)" where
  "resolveCity res = (case res of
      Transport_error \<Rightarrow> Inl Geo_platform_error
    | Http_response ok body \<Rightarrow>
        (if \<not> ok then Inl Geocoding_request_failed
         else (case body of
                 None \<Rightarrow> Inl Geo_platform_error
               | Some j \<Rightarrow>
                   (case results j of
                      None \<Rightarrow> Inl City_not_found
                    | Some [] \<Rightarrow> Inl City_not_found
                    | Some (ro # _) \<Rightarrow>
                        (case ro of
                           None \<Rightarrow> Inl Geo_platform_error
                         | Some r \<Rightarrow> Inr (latitude r, longitude r, formatLocationLabel (Some r)))))))"

definition reverseLabel :: "geo_json response \<Rightarrow> string option" where
  "reverseLabel res = (case res of
      Transport_error \<Rightarrow> None
    | Http_response ok body \<Rightarrow>
        (if \<not> ok then None
         else (case body of
                 None \<Rightarrow> None
               | Some j \<Rightarrow>
                   (case results j of
                      None \<Rightarrow> None
                    | Some [] \<Rightarrow> None
                    | Some (ro # _) \<Rightarrow> Some (formatLocationLabel ro)))))"

subsection \<open>Examples\<close>

definition example_chennai :: geo_result where
  "example_chennai = \<lparr>name = Some ''Chennai'', admin1 = Some ''Tamil Nadu'', country = Some ''India'',
     latitude = 13.08, longitude = 80.27\<rparr>"

definition geo_ok :: "geo_result \<Rightarrow> geo_json response" where
  "geo_ok r = Http_response True (Some \<lparr>results = Some [Some r]\<rparr>)"

subsection \<open>Lemmas\<close>

lemma label_sep_hd [simp]: "label_sep \<noteq> [] \<and> hd label_sep = CHR '',''"
  by (simp add: label_sep_def)

lemma formatLocationLabel_parts:
  "formatLocationLabel (Some r) =
     join label_sep (filter_truthy ([name r]
        @ (if truthy (admin1 r) \<and> admin1 r \<noteq> name r then [admin1 r] else [])
        @ (if truthy (country r) then [country r] else [])))"
  by (simp add: formatLocationLabel_def)

lemma resolveCity_Inr_shape:
  "resolveCity res = Inr (lat, lon, l) \<Longrightarrow>
     \<exists>j r rs. res = Http_response True (Some j) \<and> results j = Some (Some r # rs)
       \<and> lat = latitude r \<and> lon = longitude r \<and> l = formatLocationLabel (Some r)"
  by (auto simp: resolveCity_def split: response.splits if_splits option.splits list.splits)

lemmas location_defs = formatLocationLabel_def resolveCity_def reverseLabel_def
  geo_error_message_def label_sep_def

subsection \<open>Properties of the resolver\<close>

text \<open>C27. \<open>resolveCity\<close> fails with ``City not found'' exactly when the
  service answered successfully with a JSON body that has no \<open>results\<close> or an
  empty one; every other failure is reported under another message.\<close>

theorem resolveCity_not_found_iff:
  "resolveCity res = Inl City_not_found \<longleftrightarrow>
     (\<exists>j. res = Http_response True (Some j) \<and> (results j = None \<or> results j = Some []))"
  by (auto simp: resolveCity_def split: response.splits if_splits option.splits list.splits)

text \<open>C28. Forward and reverse lookup agree on the label: whenever
  \<open>resolveCity\<close> accepts an answer, \<open>reverseLabel\<close> turns the same answer into
  the same label.\<close>

theorem reverse_agrees_with_forward:
  assumes "resolveCity res = Inr (x, y, l)"
  shows "reverseLabel res = Some l"
  using resolveCity_Inr_shape [OF assms] by (auto simp: reverseLabel_def)

theorem reverse_agrees_with_forward_witness:
  "resolveCity (geo_ok example_chennai) = Inr (13.08, 80.27, formatLocationLabel (Some example_chennai)) \<and>
   reverseLabel (geo_ok example_chennai) = Some (''Chennai'' @ label_sep @ ''Tamil Nadu'' @ label_sep @ ''India'')"
proof -
  have h: "resolveCity (geo_ok example_chennai) = Inr (13.08, 80.27, formatLocationLabel (Some example_chennai))"
    by (simp add: resolveCity_def geo_ok_def example_chennai_def)
  have l: "formatLocationLabel (Some example_chennai) = ''Chennai'' @ label_sep @ ''Tamil Nadu'' @ label_sep @ ''India''"
    by (simp add: formatLocationLabel_def example_chennai_def)
  show ?thesis using reverse_agrees_with_forward [OF h] h l by simp
qed

text \<open>C29. With place, region and country all present, the label is
  ``place,\<newline>region,\<newline>country'', the region left out when it repeats the
  place name.\<close>

theorem formatLocationLabel_full:
  assumes "name r = Some n" and "n \<noteq> []" and "admin1 r = Some a" and "a \<noteq> []"
    and "country r = Some c" and "c \<noteq> []"
  shows "formatLocationLabel (Some r) =
     (if a = n then n @ label_sep @ c else n @ label_sep @ a @ label_sep @ c)"
  using assms by (simp add: formatLocationLabel_def)

theorem formatLocationLabel_full_witness:
  "name example_chennai = Some ''Chennai'' \<and> admin1 example_chennai = Some ''Tamil Nadu'' \<and>
   country example_chennai = Some ''India'' \<and>
   formatLocationLabel (Some example_chennai) = ''Chennai'' @ label_sep @ ''Tamil Nadu'' @ label_sep @ ''India''"
proof -
  have h: "name example_chennai = Some ''Chennai''" "admin1 example_chennai = Some ''Tamil Nadu''"
    "country example_chennai = Some ''India''"
    by (simp_all add: example_chennai_def)
  show ?thesis using formatLocationLabel_full [OF h(1) _ h(2) _ h(3)] h by simp
qed

end
