(* ===== verification/Fetch.thy ===== *)
theory Fetch
  imports Location
begin

text \<open>
  The weather fetch coordinator: the React state of \<open>WeatherCard\<close>
  (\<open>src/src/components/WeatherCard.jsx\<close> lines 68--78) and
  \<open>fetchWeatherAt\<close> (lines 92--130).  \<open>fetchWeatherAt\<close> is an \<open>async\<close>
  function that suspends once, at \<open>await fetch(url)\<close>; it is modelled as two
  state transformers: \<open>fetch_start\<close>, the synchronous part up to the call
  (dedup guard, \<open>setLoading(true)\<close>, \<open>setError("")\<close>, the request), which
  leaves an \<open>Await_forecast\<close> task behind, and \<open>fetch_finish\<close>, the part that
  runs when the response arrives (the \<open>try\<close> body, \<open>catch\<close> and \<open>finally\<close>).
  Between the two, any other event may run.  The spec's atomic fetch
  (\<open>spec_fetch\<close>, spec section 4.2) is stated over an abstraction of the state.
\<close>

subsection \<open>Data\<close>

text \<open>The unit state holds \<open>"celsius"\<close> or \<open>"fahrenheit"\<close>, the only two values
  it is ever assigned (line 71 and the toggle at line 305).\<close>

datatype temp_unit = Celsius | Fahrenheit

definition unit_param :: "temp_unit \<Rightarrow> string" where
  "unit_param u = (case u of Celsius \<Rightarrow> ''celsius'' | Fahrenheit \<Rightarrow> ''fahrenheit'')"

text \<open>The \<open>current_weather\<close> object of the forecast answer.\<close>

record current_weather =
  temperature :: real
  weathercode :: int
  is_day :: int
  windspeed :: real
  winddirection :: "real option"
  time :: string

text \<open>The \<open>daily\<close> object: index-aligned arrays, one entry per day.\<close>

record daily =
  daily_time :: "string list"
  daily_weathercode :: "int list"
  temperature_2m_max :: "real list"
  temperature_2m_min :: "real list"
  sunrise :: "string list"
  sunset :: "string list"

record forecast_json =
  current_weather :: "current_weather option"
  daily :: "daily option"

text \<open>The \<open>meta\<close> state of \<open>App\<close> (\<open>src/src/App.jsx\<close> line 67), written by
  the \<open>onMetaChange\<close> callback (\<open>setMeta\<close>).\<close>

record weather_meta =
  code :: int
  isDay :: int

text \<open>The argument object of \<open>fetchWeatherAt\<close>; every call site passes
  \<open>unitToUse\<close> explicitly, \<open>placeLabel\<close> defaults to \<open>null\<close>.\<close>

record fetch_args =
  lat :: coord
  lon :: coord
  unitToUse :: temp_unit
  placeLabel :: "string option"

type_synonym fetch_key = "coord \<times> coord \<times> temp_unit"

definition key_of :: "fetch_args \<Rightarrow> fetch_key" where
  "key_of a = (lat a, lon a, unitToUse a)"

text \<open>A call to the outside world, in the order the code makes them.\<close>

datatype request =
    Forecast_req coord coord temp_unit
  | Geocode_req string
  | Reverse_req coord coord
  | Position_req
  | Clipboard_req string
  | Timer_req

text \<open>A suspended continuation waiting for the outside world, with the values
  its closure captured.\<close>

datatype task =
    Await_forecast fetch_args
  | Await_geocode temp_unit
  | Await_reverse coord coord temp_unit
  | Await_position temp_unit
  | Await_clipboard
  | Await_timer

text \<open>The state cells of \<open>WeatherCard\<close> (\<open>useState\<close>, the ref
  \<open>lastFetchRef\<close>), the \<open>meta\<close> cell of \<open>App\<close> it writes, the log of requests
  and the pending continuations, and two platform facts (\<open>navigator.geolocation\<close>
  present, \<open>window.location.origin\<close>).  \<open>lastFetchRef\<close> starts as
  \<open>{lat: null, lon: null, unit: null}\<close> and is only ever assigned a complete key,
  so it is a \<open>fetch_key option\<close>.\<close>

record card_state =
  query :: string
  displayName :: string
  unit :: temp_unit
  loading :: bool
  error :: string
  coords :: "(coord \<times> coord) option"
  data :: "current_weather option"
  dailyForecast :: "daily option"
  shareMessage :: string
  lastFetch :: "fetch_key option"
  meta :: weather_meta
  issued :: "request list"
  pending :: "task list"
  has_geolocation :: bool
  origin :: string

subsection \<open>fetchWeatherAt\<close>

definition fetch_failed_msg :: string where
  "fetch_failed_msg = ''Failed to fetch weather. Please try again.''"

text \<open>Lines 94--106: the dedup guard on the last completed key, then
  \<open>setLoading(true)\<close>, \<open>setError("")\<close> and the request.\<close>

definition fetch_start :: "fetch_args \<Rightarrow> card_state \<Rightarrow> card_state" where
  "fetch_start a s =
     (if lastFetch s = Some (key_of a) then s
      else s\<lparr>loading := True, error := [],
             issued := issued s @ [Forecast_req (lat a) (lon a) (unitToUse a)],
             pending := pending s @ [Await_forecast a]\<rparr>)"

text \<open>Lines 106--113: what the response yields, \<open>None\<close> where the code throws
  (\<open>fetch\<close> rejects, \<open>!res.ok\<close>, \<open>res.json()\<close> rejects, no
  \<open>current_weather\<close>).\<close>

definition forecast_result :: "forecast_json response \<Rightarrow> (current_weather \<times> daily option) option" where
  "forecast_result res = (case res of
      Transport_error \<Rightarrow> None
    | Http_response ok body \<Rightarrow>
        (if \<not> ok then None
         else (case body of
                 None \<Rightarrow> None
               | Some j \<Rightarrow> (case current_weather j of
                              None \<Rightarrow> None
                            | Some cw \<Rightarrow> Some (cw, daily j)))))"

text \<open>Lines 113--127: on success \<open>setData\<close>, \<open>setDailyForecast\<close>,
  \<open>onMetaChange\<close>, \<open>setDisplayName\<close> when the label is truthy and the ref
  update; on a throw \<open>setError\<close>; in both cases \<open>setLoading(false)\<close>.\<close>

definition fetch_finish :: "fetch_args \<Rightarrow> forecast_json response \<Rightarrow> card_state \<Rightarrow> card_state" where
  "fetch_finish a res s = (case forecast_result res of
      None \<Rightarrow> s\<lparr>error := fetch_failed_msg, loading := False\<rparr>
    | Some (cw, d) \<Rightarrow>
        s\<lparr>data := Some cw, dailyForecast := d,
          meta := \<lparr>code = weathercode cw, isDay = is_day cw\<rparr>,
          displayName := (if truthy (placeLabel a) then the (placeLabel a) else displayName s),
          lastFetch := Some (key_of a), loading := False\<rparr>)"

text \<open>The forecast requests among the calls made (an observation of the
  request log, not code).\<close>

fun forecast_calls :: "request list \<Rightarrow> fetch_key list" where
  "forecast_calls [] = []"
| "forecast_calls (Forecast_req x y u # rs) = (x, y, u) # forecast_calls rs"
| "forecast_calls (_ # rs) = forecast_calls rs"

subsection \<open>The specification's coordinator\<close>

text \<open>The session state of spec section 3 and the atomic \<open>fetch\<close> of spec
  section 4.2: dedup on the last completed key; on failure loading off and an
  error, data kept; on success data stored, key remembered, loading off, error
  cleared, label adopted when one was supplied, meta emitted.\<close>

record session =
  s_displayName :: string
  s_loading :: bool
  s_error :: string
  s_conditions :: "current_weather option"
  s_forecast :: "daily option"
  s_lastKey :: "fetch_key option"
  s_meta :: weather_meta

definition session_of :: "card_state \<Rightarrow> session" where
  "session_of s = \<lparr>s_displayName = displayName s, s_loading = loading s, s_error = error s,
     s_conditions = data s, s_forecast = dailyForecast s, s_lastKey = lastFetch s,
     s_meta = meta s\<rparr>"

definition spec_fetch :: "fetch_args \<Rightarrow> forecast_json response \<Rightarrow> session \<Rightarrow> session" where
  "spec_fetch a res \<sigma> =
     (if s_lastKey \<sigma> = Some (key_of a) then \<sigma>
      else (case forecast_result res of
              None \<Rightarrow> \<sigma>\<lparr>s_loading := False, s_error := fetch_failed_msg\<rparr>
            | Some (cw, d) \<Rightarrow>
                \<sigma>\<lparr>s_conditions := Some cw, s_forecast := d, s_lastKey := Some (key_of a),
                  s_loading := False, s_error := [],
                  s_displayName := (if truthy (placeLabel a) then the (placeLabel a) else s_displayName \<sigma>),
                  s_meta := \<lparr>code = weathercode cw, isDay = is_day cw\<rparr>\<rparr>))"

subsection \<open>Examples\<close>

definition example_weather :: current_weather where
  "example_weather = \<lparr>temperature = 31.4, weathercode = 1, is_day = 1, windspeed = 9.7,
     winddirection = Some 120, time = ''2025-01-01T12:00''\<rparr>"

definition example_forecast :: forecast_json where
  "example_forecast = \<lparr>current_weather = Some example_weather, daily = None\<rparr>"

definition example_args :: fetch_args where
  "example_args = \<lparr>lat = 13.08, lon = 80.27, unitToUse = Celsius, placeLabel = Some ''Chennai''\<rparr>"

definition example_state :: card_state where
  "example_state = \<lparr>query = [], displayName = [], unit = Celsius, loading = False, error = [],
     coords = None, data = None, dailyForecast = None, shareMessage = [], lastFetch = None,
     meta = \<lparr>code = 0, isDay = 1\<rparr>, issued = [], pending = [], has_geolocation = False,
     origin = ''https://weather.example''\<rparr>"

subsection \<open>Lemmas\<close>

lemma fetch_failed_msg_nonempty [simp]: "fetch_failed_msg \<noteq> []"
  by (simp add: fetch_failed_msg_def)

lemma forecast_result_Some_iff:
  "forecast_result res = Some (cw, d) \<longleftrightarrow>
     (\<exists>j. res = Http_response True (Some j) \<and> current_weather j = Some cw \<and> daily j = d)"
  by (auto simp: forecast_result_def split: response.splits option.splits)

lemma fetch_start_fresh [state_simps]:
  "lastFetch s \<noteq> Some (key_of a) \<Longrightarrow>
     fetch_start a s = s\<lparr>loading := True, error := [],
       issued := issued s @ [Forecast_req (lat a) (lon a) (unitToUse a)],
       pending := pending s @ [Await_forecast a]\<rparr>"
  by (simp add: fetch_start_def)

lemma fetch_start_same [state_simps]:
  "lastFetch s = Some (key_of a) \<Longrightarrow> fetch_start a s = s"
  by (simp add: fetch_start_def)

lemma fetch_start_frame [simp]:
  "data (fetch_start a s) = data s"
  "dailyForecast (fetch_start a s) = dailyForecast s"
  "lastFetch (fetch_start a s) = lastFetch s"
  "displayName (fetch_start a s) = displayName s"
  "coords (fetch_start a s) = coords s"
  "unit (fetch_start a s) = unit s"
  "meta (fetch_start a s) = meta s"
  "query (fetch_start a s) = query s"
  "shareMessage (fetch_start a s) = shareMessage s"
  "has_geolocation (fetch_start a s) = has_geolocation s"
  "origin (fetch_start a s) = origin s"
  by (simp_all add: fetch_start_def)

lemma fetch_start_issued:
  "issued (fetch_start a s) =
     issued s @ (if lastFetch s = Some (key_of a) then [] else [Forecast_req (lat a) (lon a) (unitToUse a)])"
  by (simp add: fetch_start_def)

lemma fetch_start_pending:
  "pending (fetch_start a s) =
     pending s @ (if lastFetch s = Some (key_of a) then [] else [Await_forecast a])"
  by (simp add: fetch_start_def)

lemma fetch_finish_frame [simp]:
  "coords (fetch_finish a res s) = coords s"
  "unit (fetch_finish a res s) = unit s"
  "query (fetch_finish a res s) = query s"
  "issued (fetch_finish a res s) = issued s"
  "pending (fetch_finish a res s) = pending s"
  "shareMessage (fetch_finish a res s) = shareMessage s"
  "has_geolocation (fetch_finish a res s) = has_geolocation s"
  "origin (fetch_finish a res s) = origin s"
  "loading (fetch_finish a res s) = False"
  by (simp_all add: fetch_finish_def split: option.splits prod.splits)

lemma forecast_calls_append [simp]:
  "forecast_calls (xs @ ys) = forecast_calls xs @ forecast_calls ys"
  by (induction xs rule: forecast_calls.induct) auto

lemmas fetch_defs = fetch_start_def fetch_finish_def forecast_result_def key_of_def
  fetch_failed_msg_def unit_param_def

subsection \<open>Properties of fetchWeatherAt\<close>

text \<open>C1. Dedup: once a fetch has completed successfully, a new call of
  \<open>fetchWeatherAt\<close> with the same latitude, longitude and unit returns at
  once: no request, no state change.\<close>

theorem fetch_dedup_after_success:
  assumes "forecast_result res \<noteq> None" and "key_of b = key_of a"
  shows "fetch_start b (fetch_finish a res s) = fetch_finish a res s"
proof -
  from assms(1) have "lastFetch (fetch_finish a res s) = Some (key_of a)"
    by (auto simp: fetch_finish_def split: option.splits)
  with assms(2) show ?thesis by (simp add: fetch_start_same)
qed

theorem fetch_dedup_after_success_witness:
  "forecast_result (Http_response True (Some example_forecast)) \<noteq> None \<and>
   fetch_start example_args (fetch_finish example_args (Http_response True (Some example_forecast)) example_state)
     = fetch_finish example_args (Http_response True (Some example_forecast)) example_state"
proof -
  have h: "forecast_result (Http_response True (Some example_forecast)) \<noteq> None"
    by (simp add: forecast_result_def example_forecast_def)
  show ?thesis using fetch_dedup_after_success [OF h refl] h by simp
qed

text \<open>C3. Failure path (lines 107, 111, 122--126): a transport failure, a
  non-success status, a body that is not JSON or a body without
  \<open>current_weather\<close> ends loading with the error message and leaves the shown
  conditions, forecast, place name, remembered key and meta as they were.\<close>

theorem fetch_failure_keeps_data:
  assumes "forecast_result res = None"
  shows "loading (fetch_finish a res s) = False \<and> error (fetch_finish a res s) = fetch_failed_msg
    \<and> data (fetch_finish a res s) = data s \<and> dailyForecast (fetch_finish a res s) = dailyForecast s
    \<and> displayName (fetch_finish a res s) = displayName s
    \<and> lastFetch (fetch_finish a res s) = lastFetch s \<and> meta (fetch_finish a res s) = meta s"
  using assms by (simp add: fetch_finish_def)

theorem fetch_failure_keeps_data_witness:
  "forecast_result Transport_error = None \<and>
   error (fetch_finish example_args Transport_error example_state) = fetch_failed_msg \<and>
   data (fetch_finish example_args Transport_error example_state) = data example_state"
proof -
  have h: "forecast_result Transport_error = None" by (simp add: forecast_result_def)
  show ?thesis using fetch_failure_keeps_data [OF h] h by simp
qed

text \<open>C4. Success path (lines 113--121, 126): conditions and forecast stored,
  key remembered, loading off, meta emitted, the label adopted only when one
  was passed and is non-empty; the error cell is not written, so it keeps
  whatever it holds when the response arrives.\<close>

theorem fetch_success_installs:
  assumes "forecast_result res = Some (cw, d)"
  shows "data (fetch_finish a res s) = Some cw \<and> dailyForecast (fetch_finish a res s) = d
    \<and> lastFetch (fetch_finish a res s) = Some (key_of a) \<and> loading (fetch_finish a res s) = False
    \<and> meta (fetch_finish a res s) = \<lparr>code = weathercode cw, isDay = is_day cw\<rparr>
    \<and> displayName (fetch_finish a res s)
        = (if truthy (placeLabel a) then the (placeLabel a) else displayName s)
    \<and> error (fetch_finish a res s) = error s"
  using assms by (simp add: fetch_finish_def)

theorem fetch_success_installs_witness:
  "forecast_result (Http_response True (Some example_forecast)) = Some (example_weather, None) \<and>
   data (fetch_finish example_args (Http_response True (Some example_forecast)) example_state)
     = Some example_weather \<and>
   displayName (fetch_finish example_args (Http_response True (Some example_forecast)) example_state)
     = ''Chennai''"
proof -
  have h: "forecast_result (Http_response True (Some example_forecast)) = Some (example_weather, None)"
    by (simp add: forecast_result_def example_forecast_def)
  show ?thesis using fetch_success_installs [OF h] h by (simp add: example_args_def)
qed

text \<open>C13. A failed fetch does not block a retry: because the ref is
  written only on success (line 121), calling \<open>fetchWeatherAt\<close> again with
  the key whose request just failed issues a new request, turns loading back
  on and clears the error.\<close>

theorem fetch_failure_retried:
  assumes "lastFetch s \<noteq> Some (key_of a)" and "forecast_result res = None"
  shows "issued (fetch_start a (fetch_finish a res (fetch_start a s)))
      = issued s @ [Forecast_req (lat a) (lon a) (unitToUse a), Forecast_req (lat a) (lon a) (unitToUse a)]
    \<and> loading (fetch_start a (fetch_finish a res (fetch_start a s)))
    \<and> error (fetch_start a (fetch_finish a res (fetch_start a s))) = []"
  using assms by (simp add: fetch_start_def fetch_finish_def)

theorem fetch_failure_retried_witness:
  "lastFetch example_state \<noteq> Some (key_of example_args) \<and> forecast_result Transport_error = None
   \<and> issued (fetch_start example_args (fetch_finish example_args Transport_error (fetch_start example_args example_state)))
     = [Forecast_req 13.08 80.27 Celsius, Forecast_req 13.08 80.27 Celsius]"
proof -
  have h: "lastFetch example_state \<noteq> Some (key_of example_args)" "forecast_result Transport_error = None"
    by (simp_all add: example_state_def forecast_result_def)
  have e: "issued example_state = []" "lat example_args = 13.08" "lon example_args = 80.27"
    "unitToUse example_args = Celsius"
    by (simp_all add: example_state_def example_args_def)
  show ?thesis using fetch_failure_retried [OF h] h e by simp
qed

text \<open>C17. Two calls with the same key while the first is still in flight
  both reach the network: the guard compares with the last completed key
  only (the ref is written on success, line 121).\<close>

theorem fetch_inflight_duplicate:
  assumes "lastFetch s \<noteq> Some (key_of a)" and "key_of b = key_of a"
  shows "forecast_calls (issued (fetch_start b (fetch_start a s)))
     = forecast_calls (issued s) @ [key_of a, key_of a]"
  using assms by (simp add: fetch_start_def key_of_def)

theorem fetch_inflight_duplicate_witness:
  "lastFetch example_state \<noteq> Some (key_of example_args) \<and>
   forecast_calls (issued (fetch_start example_args (fetch_start example_args example_state)))
     = [key_of example_args, key_of example_args]"
proof -
  have h: "lastFetch example_state \<noteq> Some (key_of example_args)" "issued example_state = []"
    by (simp_all add: example_state_def)
  show ?thesis using fetch_inflight_duplicate [OF h(1) refl] h by simp
qed

end
