(* ===== verification/Share.thy ===== *)
theory Share
  imports Location
begin

text \<open>
  The pure part of \<open>handleShare\<close> (\<open>src/src/components/WeatherCard.jsx\<close>
  lines 209--222): the city is the display name up to its first comma
  (\<open>displayName.split(",")[0]\<close>), the link is
  \<open>window.location.origin + "/weather/" + encodeURIComponent(city)\<close>, and the
  feedback texts.  \<open>encodeURIComponent\<close> is the ECMAScript library function:
  it writes a string as UTF-8 and percent-encodes every byte except the
  unreserved ASCII characters \<open>A-Z a-z 0-9 - _ . ! ~ * ' ( )\<close>, with upper-case
  hexadecimal digits.  On the byte-string model of strings it is a map over the
  bytes.  \<open>percent_decode\<close> is its inverse (\<open>decodeURIComponent\<close>), used to
  state what a receiver of the link recovers.
\<close>

definition is_unreserved :: "char \<Rightarrow> bool" where
  "is_unreserved c =
     (let n = of_char c :: nat
      in (48 \<le> n \<and> n \<le> 57) \<or> (65 \<le> n \<and> n \<le> 90) \<or> (97 \<le> n \<and> n \<le> 122)
         \<or> c \<in> set [CHR 0x2D, CHR 0x5F, CHR 0x2E, CHR 0x21, CHR 0x7E, CHR 0x2A, CHR 0x27, CHR 0x28, CHR 0x29])"

definition hex_digit :: "nat \<Rightarrow> char" where
  "hex_digit k = ''0123456789ABCDEF'' ! k"

definition encode_byte :: "char \<Rightarrow> string" where
  "encode_byte c =
     (if is_unreserved c then [c]
      else [CHR ''%'', hex_digit (of_char c div 16), hex_digit (of_char c mod 16)])"

definition encodeURIComponent :: "string \<Rightarrow> string" where
  "encodeURIComponent s = concat (map encode_byte s)"

definition hex_value :: "char \<Rightarrow> nat option" where
  "hex_value c =
     (let n = of_char c :: nat
      in if 48 \<le> n \<and> n \<le> 57 then Some (n - 48)
         else if 65 \<le> n \<and> n \<le> 70 then Some (n - 55)
         else if 97 \<le> n \<and> n \<le> 102 then Some (n - 87)
         else None)"

fun percent_decode :: "string \<Rightarrow> string option" where
  "percent_decode [] = Some []"
| "percent_decode (c # rest) =
     (if c = CHR ''%'' then
        (case rest of
           h1 # h2 # rest' \<Rightarrow>
             (case (hex_value h1, hex_value h2) of
                (Some a, Some b) \<Rightarrow> map_option (Cons (char_of (16 * a + b))) (percent_decode rest')
              | _ \<Rightarrow> None)
         | _ \<Rightarrow> None)
      else map_option (Cons c) (percent_decode rest))"

definition share_city :: "string \<Rightarrow> string" where
  "share_city dn = split_first CHR '','' dn"

definition share_url :: "string \<Rightarrow> string \<Rightarrow> string" where
  "share_url orig dn = orig @ ''/weather/'' @ encodeURIComponent (share_city dn)"

text \<open>\<open>"\<checkmark> Weather link copied!"\<close> and \<open>"\<times> Failed to copy link"\<close>, the
  emoji U+2705 and U+274C written as their UTF-8 bytes.\<close>

definition share_copied_msg :: string where
  "share_copied_msg = [CHR 0xE2, CHR 0x9C, CHR 0x85] @ '' Weather link copied!''"

definition share_failed_msg :: string where
  "share_failed_msg = [CHR 0xE2, CHR 0x9D, CHR 0x8C] @ '' Failed to copy link''"

subsection \<open>Lemmas\<close>

lemma hex_value_hex_digit: "k < 16 \<Longrightarrow> hex_value (hex_digit k) = Some k"
proof -
  assume "k < 16"
  then have "k \<in> {0..<16}" by simp
  then show ?thesis
    by (simp add: atLeast0LessThan lessThan_nat_numeral hex_value_def hex_digit_def)
       (elim disjE; simp)
qed

lemma percent_decode_unreserved:
  "c \<noteq> CHR ''%'' \<Longrightarrow> percent_decode (c # rest) = map_option (Cons c) (percent_decode rest)"
  by simp

lemma not_unreserved_percent [simp]: "\<not> is_unreserved CHR ''%''"
  by (simp add: is_unreserved_def)

text \<open>The two hexadecimal digits of a byte.\<close>

lemma byte_hex_digits: "of_char c div 16 < (16::nat)" "of_char c mod 16 < (16::nat)"
proof -
  have "of_char c < (16 * 16 :: nat)"
    using nat_of_char_less_256 [of c] by simp
  then show "of_char c div 16 < (16::nat)" by (rule less_mult_imp_div_less)
qed simp

lemma hex_digit_mem: "k < 16 \<Longrightarrow> hex_digit k \<in> set ''0123456789ABCDEF''"
  unfolding hex_digit_def by (rule nth_mem) simp

lemma char_of_hex_split: "char_of (16 * (of_char c div 16) + of_char c mod 16 :: nat) = c"
  by simp

lemma percent_decode_encode_byte:
  "percent_decode (encode_byte c @ rest) = map_option (Cons c) (percent_decode rest)"
proof (cases "is_unreserved c")
  case True
  then have "c \<noteq> CHR ''%''" by auto
  with True show ?thesis by (simp add: encode_byte_def)
next
  case False
  then show ?thesis
    by (simp add: encode_byte_def hex_value_hex_digit [OF byte_hex_digits(1)]
        hex_value_hex_digit [OF byte_hex_digits(2)])
qed

lemma encodeURIComponent_Cons:
  "encodeURIComponent (c # s) = encode_byte c @ encodeURIComponent s"
  by (simp add: encodeURIComponent_def)

lemma share_city_no_comma: "CHR '','' \<notin> set (share_city dn)"
  by (simp add: share_city_def split_first_no_sep)

subsection \<open>Properties of the share link\<close>

text \<open>\<open>encodeURIComponent\<close> loses nothing: decoding the encoded city
  gives it back, so the receiver of the link recovers the city exactly.\<close>

theorem encode_decode_roundtrip: "percent_decode (encodeURIComponent s) = Some s"
  by (induction s) (simp_all add: encodeURIComponent_Cons percent_decode_encode_byte,
                    simp add: encodeURIComponent_def)

text \<open>The encoded city is a single path segment of the
  link: every character of \<open>encodeURIComponent\<close>'s output is unreserved,
  \<open>%\<close> or an upper-case hexadecimal digit, so it contains no \<open>/\<close>, \<open>?\<close>,
  \<open>#\<close>, comma or space.\<close>

theorem encode_alphabet:
  "set (encodeURIComponent s) \<subseteq> Collect is_unreserved \<union> set (CHR ''%'' # ''0123456789ABCDEF'')"
proof
  fix c
  assume "c \<in> set (encodeURIComponent s)"
  then obtain b where "c \<in> set (encode_byte b)" by (auto simp: encodeURIComponent_def)
  then show "c \<in> Collect is_unreserved \<union> set (CHR ''%'' # ''0123456789ABCDEF'')"
    using hex_digit_mem [OF byte_hex_digits(1)] hex_digit_mem [OF byte_hex_digits(2)]
    by (auto simp: encode_byte_def split: if_splits)
qed

end
