(* ===== verification/Card.thy ===== *)
theory Card
  imports Fetch Share
begin

text \<open>
  The \<open>WeatherCard\<close> component as an event machine
  (\<open>src/src/components/WeatherCard.jsx\<close>).  An event is either a user action
  (typing, search, unit toggle, share) or the outside world resuming one of
  the pending continuations (geolocation callback, geocoding, reverse
  geocoding or forecast response, clipboard result, timer).  The handlers run
  their synchronous part up to the next \<open>await\<close> and leave a task behind.
  React effects run after the render that follows a handler, in declaration
  order: the geolocation effect (lines 162--179, dependencies
  \<open>[fetchWeatherAt, reverseLabel, unit]\<close>, so it runs on mount and after every
  unit change, since \<open>fetchWeatherAt\<close> depends on \<open>unit\<close>) and the coords
  effect (lines 181--185, dependencies \<open>[unit, coords, fetchWeatherAt]\<close>, so it
  runs on mount, after every unit change and after every \<open>setCoords\<close>, which
  always stores a fresh object).
\<close>

subsection \<open>Messages and constants\<close>

definition location_error_msg :: string where
  "location_error_msg = ''Could not get your location.''"

definition live_location :: string where
  "live_location = ''Live location''"

definition city_not_found_msg :: string where
  "city_not_found_msg = ''City not found. Try another name.''"

definition place_error_msg :: string where
  "place_error_msg = ''Could not find that place. Please try again.''"

text \<open>Lines 198--202: the \<open>catch\<close> of \<open>onSearch\<close> dispatches on the message.\<close>

definition search_error_text :: "geo_error \<Rightarrow> string" where
  "search_error_text e =
     (if geo_error_message e = ''City not found'' then city_not_found_msg else place_error_msg)"

text \<open>Line 305.\<close>

definition toggled :: "temp_unit \<Rightarrow> temp_unit" where
  "toggled u = (if u = Celsius then Fahrenheit else Celsius)"

subsection \<open>Effects\<close>

definition geolocation_effect :: "card_state \<Rightarrow> card_state" where
  "geolocation_effect s =
     (if \<not> has_geolocation s then s
      else s\<lparr>issued := issued s @ [Position_req], pending := pending s @ [Await_position (unit s)]\<rparr>)"

definition coords_effect :: "card_state \<Rightarrow> card_state" where
  "coords_effect s = (case coords s of
      None \<Rightarrow> s
    | Some (x, y) \<Rightarrow> fetch_start \<lparr>lat = x, lon = y, unitToUse = unit s, placeLabel = None\<rparr> s)"

text \<open>The state after the first render: the initial \<open>useState\<close> values
  (lines 69--78, and \<open>meta = {code: 0, isDay: 1}\<close> of \<open>App\<close>), then both effects.\<close>

definition initial_state :: "bool \<Rightarrow> string \<Rightarrow> card_state" where
  "initial_state g orig = coords_effect (geolocation_effect
     \<lparr>query = [], displayName = [], unit = Celsius, loading = False, error = [],
      coords = None, data = None, dailyForecast = None, shareMessage = [],
      lastFetch = None, meta = \<lparr>code = 0, isDay = 1\<rparr>, issued = [], pending = [],
      has_geolocation = g, origin = orig\<rparr>)"

subsection \<open>Handlers\<close>

text \<open>The unit toggle (lines 304--306) followed by the effects it triggers.\<close>

definition toggle_unit :: "card_state \<Rightarrow> card_state" where
  "toggle_unit s = coords_effect (geolocation_effect (s\<lparr>unit := toggled (unit s)\<rparr>))"

text \<open>\<open>onSearch\<close> up to \<open>await resolveCity(...)\<close> (lines 187--192).\<close>

definition onSearch :: "card_state \<Rightarrow> card_state" where
  "onSearch s =
     (let q = js_trim (query s)
      in if q = [] then s
         else s\<lparr>loading := True, error := [], issued := issued s @ [Geocode_req q],
                pending := pending s @ [Await_geocode (unit s)]\<rparr>)"

text \<open>\<open>onSearch\<close> after the geocoding answer (lines 192--205), with the unit
  its closure captured.  When \<open>fetchWeatherAt\<close> returns at once (dedup) the
  \<open>finally\<close> clears \<open>loading\<close> before the render; otherwise it runs when the
  forecast completes, right after \<open>fetchWeatherAt\<close>'s own \<open>finally\<close> has
  cleared it.  The render then runs the coords effect.\<close>

definition search_resume :: "temp_unit \<Rightarrow> geo_json response \<Rightarrow> card_state \<Rightarrow> card_state" where
  "search_resume u res s = (case resolveCity res of
      Inl e \<Rightarrow> s\<lparr>error := search_error_text e, loading := False\<rparr>
    | Inr (x, y, l) \<Rightarrow>
        (let s1 = s\<lparr>coords := Some (x, y), displayName := l\<rparr>;
             a = \<lparr>lat = x, lon = y, unitToUse = u, placeLabel = Some l\<rparr>;
             s2 = fetch_start a s1;
             s3 = (if lastFetch s1 = Some (key_of a) then s2\<lparr>loading := False\<rparr> else s2)
         in coords_effect s3))"

text \<open>The success callback of \<open>getCurrentPosition\<close> up to
  \<open>await reverseLabel(lat, lon)\<close> (lines 165--170), then the coords effect.\<close>

definition position_success :: "temp_unit \<Rightarrow> coord \<Rightarrow> coord \<Rightarrow> card_state \<Rightarrow> card_state" where
  "position_success u x y s = coords_effect
     (s\<lparr>coords := Some (x, y), issued := issued s @ [Reverse_req x y],
        pending := pending s @ [Await_reverse x y u]\<rparr>)"

text \<open>The error callback (line 176).\<close>

definition position_error :: "card_state \<Rightarrow> card_state" where
  "position_error s = s\<lparr>error := location_error_msg\<rparr>"

text \<open>The success callback after the reverse lookup (lines 170--174).\<close>

definition reverse_resume :: "coord \<Rightarrow> coord \<Rightarrow> temp_unit \<Rightarrow> geo_json response \<Rightarrow> card_state \<Rightarrow> card_state" where
  "reverse_resume x y u res s =
     (let place = reverseLabel res;
          label = (if truthy place then the place else live_location)
      in fetch_start \<lparr>lat = x, lon = y, unitToUse = u, placeLabel = Some label\<rparr>
           (s\<lparr>displayName := label\<rparr>))"

text \<open>\<open>handleShare\<close> up to \<open>await navigator.clipboard.writeText\<close> (lines 209--216).\<close>

definition handleShare :: "card_state \<Rightarrow> card_state" where
  "handleShare s =
     (if displayName s = [] then s
      else s\<lparr>issued := issued s @ [Clipboard_req (share_url (origin s) (displayName s))],
             pending := pending s @ [Await_clipboard]\<rparr>)"

text \<open>After the clipboard write (lines 216--221): the message and its timer.\<close>

definition share_resume :: "bool \<Rightarrow> card_state \<Rightarrow> card_state" where
  "share_resume ok s =
     s\<lparr>shareMessage := (if ok then share_copied_msg else share_failed_msg),
       issued := issued s @ [Timer_req], pending := pending s @ [Await_timer]\<rparr>"

subsection \<open>Events and the step function\<close>

datatype event =
    Query_change string
  | Search
  | Toggle_unit
  | Share
  | Position_ok nat coord coord
  | Position_denied nat
  | Reverse_response nat "geo_json response"
  | Geocode_response nat "geo_json response"
  | Forecast_response nat "forecast_json response"
  | Clipboard_result nat bool
  | Timer_fired nat

text \<open>Resuming the \<open>i\<close>-th pending task removes it; an event naming a task of
  another kind, or none, is not enabled and changes nothing.\<close>

definition resume :: "nat \<Rightarrow> card_state \<Rightarrow> card_state" where
  "resume i s = s\<lparr>pending := drop_at i (pending s)\<rparr>"

fun step :: "card_state \<Rightarrow> event \<Rightarrow> card_state" where
  "step s (Query_change q) = s\<lparr>query := q\<rparr>"
| "step s Search = onSearch s"
| "step s Toggle_unit = toggle_unit s"
| "step s Share = handleShare s"
| "step s (Position_ok i x y) = (case js_nth (pending s) i of
      Some (Await_position u) \<Rightarrow> position_success u x y (resume i s) | _ \<Rightarrow> s)"
| "step s (Position_denied i) = (case js_nth (pending s) i of
      Some (Await_position u) \<Rightarrow> position_error (resume i s) | _ \<Rightarrow> s)"
| "step s (Reverse_response i res) = (case js_nth (pending s) i of
      Some (Await_reverse x y u) \<Rightarrow> reverse_resume x y u res (resume i s) | _ \<Rightarrow> s)"
| "step s (Geocode_response i res) = (case js_nth (pending s) i of
      Some (Await_geocode u) \<Rightarrow> search_resume u res (resume i s) | _ \<Rightarrow> s)"
| "step s (Forecast_response i res) = (case js_nth (pending s) i of
      Some (Await_forecast a) \<Rightarrow> fetch_finish a res (resume i s) | _ \<Rightarrow> s)"
| "step s (Clipboard_result i ok) = (case js_nth (pending s) i of
      Some Await_clipboard \<Rightarrow> share_resume ok (resume i s) | _ \<Rightarrow> s)"
| "step s (Timer_fired i) = (case js_nth (pending s) i of
      Some Await_timer \<Rightarrow> (resume i s)\<lparr>shareMessage := []\<rparr> | _ \<Rightarrow> s)"

fun run :: "card_state \<Rightarrow> event list \<Rightarrow> card_state" where
  "run s [] = s"
| "run s (e # es) = run (step s e) es"

inductive reach :: "card_state \<Rightarrow> bool" where
  reach_init: "reach (initial_state g orig)"
| reach_step: "reach s \<Longrightarrow> reach (step s e)"

subsection \<open>Observations\<close>

fun loading_task :: "task \<Rightarrow> bool" where
  "loading_task (Await_forecast _) = True"
| "loading_task (Await_geocode _) = True"
| "loading_task _ = False"

subsection \<open>Examples\<close>

text \<open>Concrete inputs for the witnesses: the first render without and with
  geolocation, two places as the geocoding service returns them, and
  successful answers of the two services.\<close>

definition example_origin :: string where
  "example_origin = ''https://weather.example''"

definition card_s0 :: card_state where
  "card_s0 = initial_state False example_origin"

definition card_g0 :: card_state where
  "card_g0 = initial_state True example_origin"

definition card_london :: card_state where
  "card_london = card_s0\<lparr>displayName := ''London, England, United Kingdom''\<rparr>"

definition example_london :: geo_result where
  "example_london = \<lparr>name = Some ''London'', admin1 = Some ''England'', country = Some ''United Kingdom'',
     latitude = 51.51, longitude = -0.13\<rparr>"

definition forecast_ok :: "current_weather \<Rightarrow> forecast_json response" where
  "forecast_ok cw = Http_response True (Some \<lparr>current_weather = Some cw, daily = None\<rparr>)"

subsection \<open>Invariants\<close>

text \<open>What every reachable state satisfies: the shown conditions and the
  remembered key are set together and the key was requested; every pending
  forecast was requested; \<open>loading\<close> is only on while a geocoding or
  forecast continuation is pending.\<close>

definition fetch_inv :: "card_state \<Rightarrow> bool" where
  "fetch_inv s \<longleftrightarrow> (lastFetch s = None \<longleftrightarrow> data s = None)
     \<and> (\<forall>k. lastFetch s = Some k \<longrightarrow> k \<in> set (forecast_calls (issued s)))
     \<and> (\<forall>a. Await_forecast a \<in> set (pending s) \<longrightarrow> key_of a \<in> set (forecast_calls (issued s)))"

definition loading_inv :: "card_state \<Rightarrow> bool" where
  "loading_inv s \<longleftrightarrow> (loading s \<longrightarrow> (\<exists>t\<in>set (pending s). loading_task t))"

subsection \<open>Lemmas\<close>

lemmas handler_defs = geolocation_effect_def coords_effect_def toggle_unit_def onSearch_def
  search_resume_def position_success_def position_error_def reverse_resume_def
  handleShare_def share_resume_def resume_def

lemma fetch_inv_irrelevant [simp]:
  "fetch_inv (s\<lparr>loading := b\<rparr>) = fetch_inv s"
  "fetch_inv (s\<lparr>error := m\<rparr>) = fetch_inv s"
  "fetch_inv (s\<lparr>coords := c\<rparr>) = fetch_inv s"
  "fetch_inv (s\<lparr>displayName := l\<rparr>) = fetch_inv s"
  "fetch_inv (s\<lparr>query := q\<rparr>) = fetch_inv s"
  "fetch_inv (s\<lparr>unit := u\<rparr>) = fetch_inv s"
  "fetch_inv (s\<lparr>shareMessage := m\<rparr>) = fetch_inv s"
  by (simp_all add: fetch_inv_def)

lemma fetch_inv_fetch_start: "fetch_inv s \<Longrightarrow> fetch_inv (fetch_start a s)"
  by (auto simp: fetch_inv_def fetch_start_def key_of_def)

lemma fetch_inv_coords_effect: "fetch_inv s \<Longrightarrow> fetch_inv (coords_effect s)"
  by (auto simp: coords_effect_def fetch_inv_fetch_start split: option.splits)

lemma fetch_inv_geolocation_effect: "fetch_inv s \<Longrightarrow> fetch_inv (geolocation_effect s)"
  by (auto simp: geolocation_effect_def fetch_inv_def)

lemma fetch_inv_resume: "fetch_inv s \<Longrightarrow> fetch_inv (resume i s)"
  by (auto simp: fetch_inv_def resume_def dest: in_set_drop_at)

lemma fetch_inv_fetch_finish:
  "fetch_inv s \<Longrightarrow> key_of a \<in> set (forecast_calls (issued s)) \<Longrightarrow> fetch_inv (fetch_finish a res s)"
  by (auto simp: fetch_inv_def fetch_finish_def split: option.splits)

lemma fetch_inv_handlers:
  assumes "fetch_inv s"
  shows "fetch_inv (toggle_unit s)" and "fetch_inv (onSearch s)"
    and "fetch_inv (position_success u x y s)" and "fetch_inv (reverse_resume x y u res s)"
    and "fetch_inv (handleShare s)" and "fetch_inv (share_resume ok s)"
proof -
  show "fetch_inv (toggle_unit s)" "fetch_inv (reverse_resume x y u res s)"
    using assms by (simp_all add: toggle_unit_def reverse_resume_def Let_def
        fetch_inv_coords_effect fetch_inv_geolocation_effect fetch_inv_fetch_start)
  show "fetch_inv (onSearch s)" "fetch_inv (handleShare s)" "fetch_inv (share_resume ok s)"
    using assms by (auto simp: onSearch_def handleShare_def share_resume_def Let_def fetch_inv_def)
  have "fetch_inv (s\<lparr>coords := Some (x, y), issued := issued s @ [Reverse_req x y],
      pending := pending s @ [Await_reverse x y u]\<rparr>)"
    using assms by (auto simp: fetch_inv_def)
  then show "fetch_inv (position_success u x y s)"
    by (simp add: position_success_def fetch_inv_coords_effect)
qed

lemma fetch_inv_initial: "fetch_inv (initial_state g orig)"
  by (simp add: initial_state_def fetch_inv_def geolocation_effect_def coords_effect_def)

lemma fetch_inv_step: "fetch_inv s \<Longrightarrow> fetch_inv (step s e)"
proof (cases e)
  case (Forecast_response i res)
  assume inv: "fetch_inv s"
  show ?thesis
  proof (cases "js_nth (pending s) i")
    case (Some t)
    then have mem: "t \<in> set (pending s)" by (auto simp: js_nth_def split: if_splits)
    show ?thesis
    proof (cases t)
      case (Await_forecast a)
      with inv mem have "key_of a \<in> set (forecast_calls (issued (resume i s)))"
        by (simp add: fetch_inv_def resume_def)
      with inv Some Await_forecast Forecast_response show ?thesis
        by (simp add: fetch_inv_fetch_finish fetch_inv_resume)
    qed (simp_all add: Forecast_response Some inv)
  qed (simp add: Forecast_response inv)
next
  case (Geocode_response i res)
  assume inv: "fetch_inv s"
  then show ?thesis using Geocode_response
    by (auto simp: search_resume_def Let_def fetch_inv_resume fetch_inv_coords_effect fetch_inv_fetch_start
       split: option.splits task.splits sum.splits prod.splits)
qed (auto simp: fetch_inv_handlers fetch_inv_resume position_error_def split: option.splits task.splits)

lemma loading_inv_irrelevant [simp]:
  "loading_inv (s\<lparr>error := m\<rparr>) = loading_inv s"
  "loading_inv (s\<lparr>coords := c\<rparr>) = loading_inv s"
  "loading_inv (s\<lparr>displayName := l\<rparr>) = loading_inv s"
  "loading_inv (s\<lparr>query := q\<rparr>) = loading_inv s"
  "loading_inv (s\<lparr>unit := u\<rparr>) = loading_inv s"
  "loading_inv (s\<lparr>shareMessage := m\<rparr>) = loading_inv s"
  "loading_inv (s\<lparr>loading := False\<rparr>)"
  by (simp_all add: loading_inv_def)

lemma loading_inv_append:
  "loading_inv s \<Longrightarrow> loading_inv (s\<lparr>issued := issued s @ rs, pending := pending s @ ts\<rparr>)"
  by (auto simp: loading_inv_def)

lemma loading_inv_fetch_start: "loading_inv s \<Longrightarrow> loading_inv (fetch_start a s)"
  by (auto simp: loading_inv_def fetch_start_def)

lemma loading_inv_fetch_start_fresh:
  "lastFetch s \<noteq> Some (key_of a) \<Longrightarrow> loading_inv (fetch_start a s)"
  by (auto simp: loading_inv_def state_simps)

lemma loading_inv_coords_effect: "loading_inv s \<Longrightarrow> loading_inv (coords_effect s)"
  by (auto simp: coords_effect_def loading_inv_fetch_start split: option.splits)

lemma loading_inv_geolocation_effect: "loading_inv s \<Longrightarrow> loading_inv (geolocation_effect s)"
  by (auto simp: geolocation_effect_def loading_inv_def)

lemma loading_inv_fetch_finish: "loading_inv (fetch_finish a res s)"
  by (simp add: loading_inv_def)

lemma loading_inv_resume:
  "loading_inv s \<Longrightarrow> \<not> loading_task (pending s ! i) \<Longrightarrow> loading_inv (resume i s)"
  by (auto simp: loading_inv_def resume_def intro: in_set_drop_at_other)

lemma loading_inv_search_resume: "loading_inv (search_resume u res s)"
  by (auto simp: search_resume_def Let_def loading_inv_coords_effect loading_inv_fetch_start_fresh
      split: sum.splits prod.splits)

lemma loading_inv_handlers:
  assumes "loading_inv s"
  shows "loading_inv (toggle_unit s)" and "loading_inv (onSearch s)"
    and "loading_inv (position_success u x y s)" and "loading_inv (reverse_resume x y u res s)"
    and "loading_inv (handleShare s)" and "loading_inv (share_resume ok s)"
    and "loading_inv (position_error s)"
proof -
  show "loading_inv (toggle_unit s)" "loading_inv (reverse_resume x y u res s)"
    using assms by (simp_all add: toggle_unit_def reverse_resume_def Let_def
        loading_inv_coords_effect loading_inv_fetch_start loading_inv_geolocation_effect)
  show "loading_inv (onSearch s)" "loading_inv (handleShare s)" "loading_inv (share_resume ok s)"
    "loading_inv (position_error s)"
    using assms by (auto simp: onSearch_def handleShare_def share_resume_def position_error_def
        Let_def loading_inv_def)
  have "loading_inv (s\<lparr>coords := Some (x, y), issued := issued s @ [Reverse_req x y],
      pending := pending s @ [Await_reverse x y u]\<rparr>)"
    using assms by (auto simp: loading_inv_def)
  then show "loading_inv (position_success u x y s)"
    by (simp add: position_success_def loading_inv_coords_effect)
qed

lemma loading_inv_initial: "loading_inv (initial_state g orig)"
  by (simp add: initial_state_def loading_inv_def geolocation_effect_def coords_effect_def)

lemma loading_inv_step: "loading_inv s \<Longrightarrow> loading_inv (step s e)"
  by (cases e) (auto simp: loading_inv_handlers loading_inv_resume loading_inv_fetch_finish
      loading_inv_search_resume js_nth_Some_iff split: option.splits task.splits)

lemma reach_fetch_inv: "reach s \<Longrightarrow> fetch_inv s"
  by (induction rule: reach.induct) (simp_all add: fetch_inv_initial fetch_inv_step)

lemma reach_loading_inv: "reach s \<Longrightarrow> loading_inv s"
  by (induction rule: reach.induct) (simp_all add: loading_inv_initial loading_inv_step)

lemma reach_run: "reach s \<Longrightarrow> reach (run s es)"
  by (induction es arbitrary: s) (auto intro: reach.reach_step)

lemma toggle_unit_issued:
  "issued (toggle_unit s) = issued s
     @ (if has_geolocation s then [Position_req] else [])
     @ (case coords s of None \<Rightarrow> []
        | Some (x, y) \<Rightarrow> if lastFetch s = Some (x, y, toggled (unit s)) then []
                       else [Forecast_req x y (toggled (unit s))])"
  by (auto simp: toggle_unit_def coords_effect_def geolocation_effect_def fetch_start_def key_of_def
      split: option.splits)

lemma toggle_unit_pending:
  "pending (toggle_unit s) = pending s
     @ (if has_geolocation s then [Await_position (toggled (unit s))] else [])
     @ (case coords s of None \<Rightarrow> []
        | Some (x, y) \<Rightarrow> if lastFetch s = Some (x, y, toggled (unit s)) then []
                       else [Await_forecast \<lparr>lat = x, lon = y, unitToUse = toggled (unit s), placeLabel = None\<rparr>])"
  by (auto simp: toggle_unit_def coords_effect_def geolocation_effect_def fetch_start_def key_of_def
      split: option.splits)

lemma position_success_reverse:
  "js_nth (pending (position_success u x y s)) (length (pending s)) = Some (Await_reverse x y u)
   \<and> coords (position_success u x y s) = Some (x, y)"
  by (auto simp: position_success_def coords_effect_def fetch_start_pending js_nth_def nth_append
      split: option.splits)

lemma reverse_resume_label:
  "displayName (reverse_resume x y u res s) = (if truthy (reverseLabel res) then the (reverseLabel res) else live_location)
   \<and> coords (reverse_resume x y u res s) = coords s"
  by (simp add: reverse_resume_def Let_def)

lemma search_resume_Inr_issued:
  assumes "resolveCity res = Inr (x, y, l)"
  shows "issued (search_resume u res s) = issued s
     @ (if lastFetch s = Some (x, y, u) then [] else [Forecast_req x y u])
     @ (if lastFetch s = Some (x, y, unit s) then [] else [Forecast_req x y (unit s)])"
  using assms by (simp add: search_resume_def Let_def coords_effect_def state_simps key_of_def)

lemma step_Toggle_unit_frame:
  "displayName (step s Toggle_unit) = displayName s \<and> coords (step s Toggle_unit) = coords s
   \<and> unit (step s Toggle_unit) = toggled (unit s)"
  by (simp add: toggle_unit_def coords_effect_def geolocation_effect_def split: option.splits)

lemmas card_eval = initial_state_def geolocation_effect_def coords_effect_def onSearch_def
  search_resume_def resume_def location_defs fetch_defs js_trim_def is_js_space_def drop_at_def
  Let_def js_nth_def toggle_unit_def toggled_def position_success_def reverse_resume_def
  position_error_def search_error_text_def handleShare_def share_resume_def

subsection \<open>Properties of the WeatherCard machine\<close>

text \<open>C5. In every reachable state the shown conditions and the remembered
  fetch key are present together, and the remembered key is one that was
  requested from the forecast service.\<close>

theorem completed_key_was_requested:
  assumes "reach s"
  shows "(lastFetch s = None \<longleftrightarrow> data s = None)
     \<and> (\<forall>k. lastFetch s = Some k \<longrightarrow> k \<in> set (forecast_calls (issued s)))"
  using reach_fetch_inv [OF assms] by (simp add: fetch_inv_def)

theorem completed_key_was_requested_witness:
  "reach card_s0 \<and> (lastFetch card_s0 = None \<longleftrightarrow> data card_s0 = None)"
proof -
  have h: "reach card_s0" by (simp add: card_s0_def reach.reach_init)
  show ?thesis using completed_key_was_requested [OF h] h by simp
qed

text \<open>C6. In every reachable state the loading indicator is only on while a
  geocoding or forecast continuation is pending: it never stays on with
  nothing in flight.\<close>

theorem loading_has_pending_request:
  assumes "reach s" and "loading s"
  shows "\<exists>t\<in>set (pending s). loading_task t"
  using reach_loading_inv [OF assms(1)] assms(2) by (simp add: loading_inv_def)

theorem loading_has_pending_request_witness:
  "reach (run card_s0 [Query_change ''Chennai'', Search])
   \<and> loading (run card_s0 [Query_change ''Chennai'', Search])
   \<and> (\<exists>t\<in>set (pending (run card_s0 [Query_change ''Chennai'', Search])). loading_task t)"
proof -
  have r: "reach (run card_s0 [Query_change ''Chennai'', Search])"
    by (rule reach_run) (simp add: card_s0_def reach.reach_init)
  have l: "loading (run card_s0 [Query_change ''Chennai'', Search])"
    by (simp add: card_s0_def card_eval)
  show ?thesis using loading_has_pending_request [OF r l] r l by simp
qed

text \<open>C11. Toggling the unit while no coordinates are known makes no forecast
  request.\<close>

theorem toggle_without_coords_no_fetch:
  assumes "coords s = None"
  shows "forecast_calls (issued (step s Toggle_unit)) = forecast_calls (issued s)"
  using assms by (simp add: toggle_unit_issued)

theorem toggle_without_coords_no_fetch_witness:
  "coords card_s0 = None \<and> forecast_calls (issued (step card_s0 Toggle_unit)) = forecast_calls (issued card_s0)"
proof -
  have h: "coords card_s0 = None" by (simp add: card_s0_def card_eval)
  show ?thesis using toggle_without_coords_no_fetch [OF h] h by simp
qed

text \<open>C12. Toggling the unit with known coordinates whose key in the new unit
  has not completed makes exactly one forecast request, for the same
  coordinates in the new unit, and leaves the place name and coordinates.\<close>

theorem toggle_with_coords_one_fetch:
  assumes "coords s = Some (x, y)" and "lastFetch s \<noteq> Some (x, y, toggled (unit s))"
  shows "forecast_calls (issued (step s Toggle_unit)) = forecast_calls (issued s) @ [(x, y, toggled (unit s))]
    \<and> displayName (step s Toggle_unit) = displayName s \<and> coords (step s Toggle_unit) = coords s
    \<and> unit (step s Toggle_unit) = toggled (unit s)"
  using assms step_Toggle_unit_frame [of s] by (simp add: toggle_unit_issued)

theorem toggle_with_coords_one_fetch_witness:
  "coords (card_s0\<lparr>coords := Some (10, 20)\<rparr>) = Some (10, 20) \<and>
   lastFetch (card_s0\<lparr>coords := Some (10, 20)\<rparr>) \<noteq> Some (10, 20, toggled (unit (card_s0\<lparr>coords := Some (10, 20)\<rparr>))) \<and>
   forecast_calls (issued (step (card_s0\<lparr>coords := Some (10, 20)\<rparr>) Toggle_unit)) = [(10, 20, Fahrenheit)]"
proof -
  have h: "coords (card_s0\<lparr>coords := Some (10, 20)\<rparr>) = Some (10, 20)"
    "lastFetch (card_s0\<lparr>coords := Some (10, 20)\<rparr>) \<noteq> Some (10, 20, toggled (unit (card_s0\<lparr>coords := Some (10, 20)\<rparr>)))"
    by (simp_all add: card_s0_def card_eval)
  have e: "issued card_s0 = []" "toggled (unit card_s0) = Fahrenheit"
    by (simp_all add: card_s0_def card_eval)
  show ?thesis using toggle_with_coords_one_fetch [OF h] h e by simp
qed

text \<open>C10. A failed forward lookup (lines 196--204) shows the error that
  matches its message, ends loading, and changes neither the shown data,
  place name and coordinates, nor makes any further request.\<close>

theorem search_failure_reports:
  assumes "js_nth (pending s) i = Some (Await_geocode u)" and "resolveCity res = Inl e"
  shows "error (step s (Geocode_response i res)) = search_error_text e
    \<and> loading (step s (Geocode_response i res)) = False
    \<and> data (step s (Geocode_response i res)) = data s
    \<and> dailyForecast (step s (Geocode_response i res)) = dailyForecast s
    \<and> displayName (step s (Geocode_response i res)) = displayName s
    \<and> coords (step s (Geocode_response i res)) = coords s
    \<and> issued (step s (Geocode_response i res)) = issued s"
  using assms by (simp add: search_resume_def resume_def)

theorem search_failure_reports_witness:
  "js_nth (pending (run card_s0 [Query_change ''Atlantis'', Search])) 0 = Some (Await_geocode Celsius) \<and>
   resolveCity (Http_response True (Some \<lparr>results = Some []\<rparr>)) = Inl City_not_found \<and>
   error (step (run card_s0 [Query_change ''Atlantis'', Search])
            (Geocode_response 0 (Http_response True (Some \<lparr>results = Some []\<rparr>))))
     = ''City not found. Try another name.''"
proof -
  have h1: "js_nth (pending (run card_s0 [Query_change ''Atlantis'', Search])) 0 = Some (Await_geocode Celsius)"
    by (simp add: card_s0_def card_eval)
  have h2: "resolveCity (Http_response True (Some \<lparr>results = Some []\<rparr>)) = Inl City_not_found"
    by (simp add: resolveCity_def)
  show ?thesis using search_failure_reports [OF h1 h2] h1 h2
    by (simp add: search_error_text_def geo_error_message_def city_not_found_msg_def)
qed

text \<open>C36. A search with an empty or blank query does nothing (line 188).\<close>

theorem blank_search_noop:
  assumes "js_trim (query s) = []"
  shows "step s Search = s"
  using assms by (simp add: onSearch_def)

theorem blank_search_noop_witness:
  "js_trim (query (card_s0\<lparr>query := '' \<newline> ''\<rparr>)) = [] \<and>
   step (card_s0\<lparr>query := '' \<newline> ''\<rparr>) Search = card_s0\<lparr>query := '' \<newline> ''\<rparr>"
proof -
  have h: "js_trim (query (card_s0\<lparr>query := '' \<newline> ''\<rparr>)) = []"
    by (simp add: js_trim_def is_js_space_def)
  show ?thesis using blank_search_noop [OF h] h by simp
qed

text \<open>C14. A denied or timed-out geolocation request shows its error and
  changes neither the place name, the data, the coordinates, nor makes a
  request.\<close>

theorem position_denied_reports:
  assumes "js_nth (pending s) i = Some (Await_position u)"
  shows "error (step s (Position_denied i)) = location_error_msg
    \<and> displayName (step s (Position_denied i)) = displayName s
    \<and> issued (step s (Position_denied i)) = issued s
    \<and> data (step s (Position_denied i)) = data s
    \<and> coords (step s (Position_denied i)) = coords s"
  using assms by (simp add: position_error_def resume_def)

theorem position_denied_reports_witness:
  "js_nth (pending card_g0) 0 = Some (Await_position Celsius) \<and>
   error (step card_g0 (Position_denied 0)) = ''Could not get your location.'' \<and>
   displayName (step card_g0 (Position_denied 0)) = [] \<and>
   forecast_calls (issued (step card_g0 (Position_denied 0))) = []"
proof -
  have h: "js_nth (pending card_g0) 0 = Some (Await_position Celsius)"
    and e: "displayName card_g0 = []" "issued card_g0 = [Position_req]"
    by (simp_all add: card_g0_def card_eval)
  show ?thesis using position_denied_reports [OF h] h e by (simp add: location_error_msg_def)
qed

text \<open>C15. A failed reverse lookup never blocks the forecast: the place name
  becomes ``Live location'' and the forecast for the position is requested
  with that label.\<close>

theorem reverse_failure_live_location:
  assumes "js_nth (pending s) i = Some (Await_reverse x y u)" and "reverseLabel res = None"
    and "lastFetch s \<noteq> Some (x, y, u)"
  shows "displayName (step s (Reverse_response i res)) = live_location
    \<and> last (pending (step s (Reverse_response i res)))
        = Await_forecast \<lparr>lat = x, lon = y, unitToUse = u, placeLabel = Some live_location\<rparr>"
  using assms by (simp add: reverse_resume_def resume_def state_simps key_of_def Let_def)

theorem reverse_failure_live_location_witness:
  "js_nth (pending (step card_g0 (Position_ok 0 10 20))) 0 = Some (Await_reverse 10 20 Celsius) \<and>
   reverseLabel Transport_error = None \<and>
   lastFetch (step card_g0 (Position_ok 0 10 20)) \<noteq> Some (10, 20, Celsius) \<and>
   displayName (run card_g0 [Position_ok 0 10 20, Reverse_response 0 Transport_error]) = ''Live location''"
proof -
  have h1: "js_nth (pending (step card_g0 (Position_ok 0 10 20))) 0 = Some (Await_reverse 10 20 Celsius)"
    and h3: "lastFetch (step card_g0 (Position_ok 0 10 20)) \<noteq> Some (10, 20, Celsius)"
    by (simp_all add: card_g0_def card_eval)
  have h2: "reverseLabel Transport_error = None" by (simp add: reverseLabel_def)
  show ?thesis using reverse_failure_live_location [OF h1 h2 h3] h1 h2 h3
    by (simp add: live_location_def)
qed

text \<open>C16. A successful forward lookup whose key has not completed sends two
  identical forecast requests: one from \<open>onSearch\<close> (line 195) and one from
  the coords effect that \<open>setCoords\<close> triggers (line 183), issued before the
  first completes.\<close>

theorem search_issues_duplicate_forecast:
  assumes "js_nth (pending s) i = Some (Await_geocode u)" and "resolveCity res = Inr (x, y, l)"
    and "unit s = u" and "lastFetch s \<noteq> Some (x, y, u)"
  shows "forecast_calls (issued (step s (Geocode_response i res)))
     = forecast_calls (issued s) @ [(x, y, u), (x, y, u)]"
  using assms by (simp add: search_resume_Inr_issued resume_def)

theorem search_issues_duplicate_forecast_witness:
  "js_nth (pending (run card_s0 [Query_change ''Chennai'', Search])) 0 = Some (Await_geocode Celsius) \<and>
   resolveCity (geo_ok example_chennai) = Inr (13.08, 80.27, formatLocationLabel (Some example_chennai)) \<and>
   forecast_calls (issued (step (run card_s0 [Query_change ''Chennai'', Search]) (Geocode_response 0 (geo_ok example_chennai))))
     = [(13.08, 80.27, Celsius), (13.08, 80.27, Celsius)]"
proof -
  have h1: "js_nth (pending (run card_s0 [Query_change ''Chennai'', Search])) 0 = Some (Await_geocode Celsius)"
    and h3: "unit (run card_s0 [Query_change ''Chennai'', Search]) = Celsius"
    and h4: "lastFetch (run card_s0 [Query_change ''Chennai'', Search]) \<noteq> Some (13.08, 80.27, Celsius)"
    and h5: "forecast_calls (issued (run card_s0 [Query_change ''Chennai'', Search])) = []"
    by (simp_all add: card_s0_def card_eval)
  have h2: "resolveCity (geo_ok example_chennai) = Inr (13.08, 80.27, formatLocationLabel (Some example_chennai))"
    by (simp add: resolveCity_def geo_ok_def example_chennai_def)
  show ?thesis using search_issues_duplicate_forecast [OF h1 h2 h3 h4] h1 h2 h5 by simp
qed

text \<open>C18. Toggling the unit asks for the device position again whenever
  geolocation is available: the geolocation effect depends on \<open>unit\<close>
  (line 179), so it re-runs and registers a new callback that will overwrite
  the coordinates and the place name.\<close>

theorem toggle_requests_position:
  assumes "has_geolocation s"
  shows "\<exists>r. issued (step s Toggle_unit) = issued s @ Position_req # r
     \<and> Await_position (toggled (unit s)) \<in> set (pending (step s Toggle_unit))"
proof -
  have "Await_position (toggled (unit s)) \<in> set (pending (geolocation_effect (s\<lparr>unit := toggled (unit s)\<rparr>)))"
    using assms by (simp add: geolocation_effect_def)
  then have "Await_position (toggled (unit s)) \<in> set (pending (toggle_unit s))"
    by (auto simp: toggle_unit_def coords_effect_def fetch_start_pending split: option.splits)
  with assms show ?thesis by (simp add: toggle_unit_issued)
qed

theorem toggle_requests_position_witness:
  "has_geolocation card_g0 \<and> (\<exists>r. issued (step card_g0 Toggle_unit) = issued card_g0 @ Position_req # r)"
proof -
  have h: "has_geolocation card_g0" by (simp add: card_g0_def card_eval)
  show ?thesis using toggle_requests_position [OF h] h by blast
qed

text \<open>Share (lines 209--216): with no place name nothing happens;
  otherwise one clipboard write of
  \<open>origin + "/weather/" + encodeURIComponent(city)\<close>.\<close>

theorem share_request:
  "issued (step s Share) = issued s @
     (if displayName s = [] then []
      else [Clipboard_req (origin s @ ''/weather/'' @ encodeURIComponent (share_city (displayName s)))])"
  by (simp add: handleShare_def share_url_def)

text \<open>C31. The link \<open>handleShare\<close> writes to the clipboard carries the
  city exactly: it is \<open>origin + "/weather/"\<close> followed by a segment that
  \<open>decodeURIComponent\<close> turns back into the city cut from the place name.\<close>

theorem share_link_decodes:
  assumes "displayName s \<noteq> []"
  shows "\<exists>seg. issued (step s Share) = issued s @ [Clipboard_req (origin s @ ''/weather/'' @ seg)]
    \<and> percent_decode seg = Some (share_city (displayName s))"
  using assms share_request [of s] encode_decode_roundtrip by simp

theorem share_link_decodes_witness:
  "displayName card_london \<noteq> []
   \<and> (\<exists>seg. issued (step card_london Share) = [Clipboard_req (''https://weather.example/weather/'' @ seg)]
        \<and> percent_decode seg = Some ''London'')"
proof -
  have h: "displayName card_london \<noteq> []" by (simp add: card_london_def)
  have e: "issued card_london = []" "origin card_london = ''https://weather.example''"
    "share_city (displayName card_london) = ''London''"
    by code_simp+
  show ?thesis using share_link_decodes [OF h] h e by simp
qed

text \<open>C32. The city is a single path segment of the shared link: every
  character after \<open>"/weather/"\<close> is unreserved, \<open>%\<close> or an upper-case
  hexadecimal digit, so a place name with a slash, question mark, hash, comma
  or space cannot change the path or add a query.\<close>

theorem share_link_single_segment:
  assumes "displayName s \<noteq> []"
  shows "\<exists>seg. issued (step s Share) = issued s @ [Clipboard_req (origin s @ ''/weather/'' @ seg)]
    \<and> set seg \<subseteq> Collect is_unreserved \<union> set (CHR ''%'' # ''0123456789ABCDEF'')"
  using assms share_request [of s] encode_alphabet by simp

theorem share_link_single_segment_witness:
  "displayName card_london \<noteq> []
   \<and> (\<exists>seg. issued (step card_london Share) = [Clipboard_req (''https://weather.example/weather/'' @ seg)]
        \<and> CHR ''/'' \<notin> set seg)"
proof -
  have h: "displayName card_london \<noteq> []" by (simp add: card_london_def)
  have e: "issued card_london = []" "origin card_london = ''https://weather.example''"
    by code_simp+
  have n: "CHR ''/'' \<notin> Collect is_unreserved \<union> set (CHR ''%'' # ''0123456789ABCDEF'')"
    by (simp add: is_unreserved_def)
  show ?thesis using share_link_single_segment [OF h] h e n by auto
qed

end
