(* ===== verification/Codes.thy ===== *)
theory Codes
  imports Prelude
begin

text \<open>
  The weather-code tables: \<open>labelFor\<close> and \<open>iconFor\<close> of
  \<open>src/src/components/WeatherCard.jsx\<close> (lines 17--57) and \<open>gradientFor\<close> of
  \<open>src/src/App.jsx\<close> (lines 8--47).  Each is an \<open>if\<close> chain over
  \<open>[..].includes(code)\<close>, kept in the source's order.  The theme is the
  \<open>theme\<close> state of \<open>App\<close>, which only ever holds \<open>"light"\<close> or \<open>"dark"\<close>.
  \<open>iconFor\<close> returns a React element: the icon component, its \<open>size\<close> and its
  \<open>className\<close>.
\<close>

datatype theme = Light | Dark

datatype wicon = WiDaySunny | WiNightClear | WiCloud | WiFog | WiRain | WiSnow
  | WiThunderstorm | WiStrongWind

record icon_elem =
  icon_kind :: wicon
  icon_size :: int
  icon_class :: string

text \<open>The code groups of the tables.\<close>

definition cloud_codes :: "int list" where
  "cloud_codes = [1, 2, 3]"

definition fog_codes :: "int list" where
  "fog_codes = [45, 48]"

definition rain_codes :: "int list" where
  "rain_codes = [51, 53, 55, 56, 57, 61, 63, 65, 66, 67, 80, 81, 82]"

definition snow_codes :: "int list" where
  "snow_codes = [71, 73, 75, 77, 85, 86]"

definition storm_codes :: "int list" where
  "storm_codes = [95, 96, 99]"

text \<open>Lines 18--37; \<open>isDay\<close> is tested for truthiness.\<close>

definition iconFor :: "int \<Rightarrow> int \<Rightarrow> int \<Rightarrow> icon_elem" where
  "iconFor c isday sz =
     (if c = 0 then
        (if isday \<noteq> 0 then \<lparr>icon_kind = WiDaySunny, icon_size = sz, icon_class = ''text-yellow-400''\<rparr>
         else \<lparr>icon_kind = WiNightClear, icon_size = sz, icon_class = ''text-indigo-300''\<rparr>)
      else if c \<in> set cloud_codes then \<lparr>icon_kind = WiCloud, icon_size = sz, icon_class = ''text-sky-400''\<rparr>
      else if c \<in> set fog_codes then \<lparr>icon_kind = WiFog, icon_size = sz, icon_class = ''text-slate-400''\<rparr>
      else if c \<in> set rain_codes then \<lparr>icon_kind = WiRain, icon_size = sz, icon_class = ''text-blue-500''\<rparr>
      else if c \<in> set snow_codes then \<lparr>icon_kind = WiSnow, icon_size = sz, icon_class = ''text-cyan-300''\<rparr>
      else if c \<in> set storm_codes then
        \<lparr>icon_kind = WiThunderstorm, icon_size = sz, icon_class = ''text-purple-400''\<rparr>
      else \<lparr>icon_kind = WiStrongWind, icon_size = sz, icon_class = ''text-teal-400''\<rparr>)"

text \<open>Lines 40--57.\<close>

definition labelFor :: "int \<Rightarrow> string" where
  "labelFor c =
     (if c = 0 then ''Clear sky''
      else if c \<in> set [1] then ''Mainly clear''
      else if c \<in> set [2] then ''Partly cloudy''
      else if c \<in> set [3] then ''Overcast''
      else if c \<in> set [45, 48] then ''Fog''
      else if c \<in> set [51, 53, 55] then ''Drizzle''
      else if c \<in> set [56, 57] then ''Freezing drizzle''
      else if c \<in> set [61, 63, 65] then ''Rain''
      else if c \<in> set [66, 67] then ''Freezing rain''
      else if c \<in> set [71, 73, 75] then ''Snowfall''
      else if c \<in> set [77] then ''Snow grains''
      else if c \<in> set [80, 81, 82] then ''Rain showers''
      else if c \<in> set [85, 86] then ''Snow showers''
      else if c \<in> set [95] then ''Thunderstorm''
      else if c \<in> set [96, 99] then ''Thunderstorm with hail''
      else ''Unknown'')"

text \<open>Lines 8--47; \<open>day\<close> is \<open>isDay === 1\<close>.\<close>

definition gradientFor :: "theme \<Rightarrow> int \<Rightarrow> int \<Rightarrow> string" where
  "gradientFor th c isday =
     (let day = (isday = 1) in
      if th = Dark then
        (if c = 0 then ''bg-gradient-to-br from-indigo-950 via-slate-900 to-slate-800''
         else if c \<in> set cloud_codes then ''bg-gradient-to-br from-slate-900 via-slate-800 to-slate-900''
         else if c \<in> set rain_codes then ''bg-gradient-to-br from-slate-900 via-indigo-900 to-slate-800''
         else if c \<in> set snow_codes then ''bg-gradient-to-br from-slate-900 via-blue-950 to-slate-800''
         else ''bg-gradient-to-br from-slate-950 via-slate-900 to-slate-800'')
      else if c = 0 then
        (if day then ''bg-gradient-to-br from-sky-100 via-indigo-100 to-emerald-100''
         else ''bg-gradient-to-br from-indigo-200 via-slate-200 to-blue-200'')
      else if c \<in> set cloud_codes then
        (if day then ''bg-gradient-to-br from-slate-100 via-slate-200 to-slate-300''
         else ''bg-gradient-to-br from-slate-200 via-slate-300 to-slate-400'')
      else if c \<in> set rain_codes then
        (if day then ''bg-gradient-to-br from-blue-100 via-blue-200 to-slate-300''
         else ''bg-gradient-to-br from-blue-200 via-indigo-200 to-slate-400'')
      else if c \<in> set snow_codes then
        (if day then ''bg-gradient-to-br from-blue-50 via-blue-100 to-sky-100''
         else ''bg-gradient-to-br from-blue-100 via-indigo-100 to-slate-200'')
      else ''bg-gradient-to-br from-emerald-100 via-sky-100 to-indigo-100'')"

text \<open>The codes of the WMO table that \<open>labelFor\<close> names.\<close>

definition wmo_codes :: "int list" where
  "wmo_codes = [0, 1, 2, 3, 45, 48, 51, 53, 55, 56, 57, 61, 63, 65, 66, 67, 71, 73, 75, 77,
     80, 81, 82, 85, 86, 95, 96, 99]"

text \<open>The label groups that belong to each icon.\<close>

definition rain_labels :: "string list" where
  "rain_labels = [''Drizzle'', ''Freezing drizzle'', ''Rain'', ''Freezing rain'', ''Rain showers'']"

definition snow_labels :: "string list" where
  "snow_labels = [''Snowfall'', ''Snow grains'', ''Snow showers'']"

subsection \<open>Lemmas\<close>

lemmas code_groups = cloud_codes_def fog_codes_def rain_codes_def snow_codes_def storm_codes_def

lemma code_groups_disjoint:
  "c \<in> set rain_codes \<Longrightarrow> c \<notin> set cloud_codes \<and> c \<notin> set fog_codes \<and> c \<noteq> 0"
  "c \<in> set snow_codes \<Longrightarrow> c \<notin> set cloud_codes \<and> c \<notin> set fog_codes \<and> c \<notin> set rain_codes \<and> c \<noteq> 0"
  by (auto simp: code_groups)

lemma iconFor_size_class [simp]: "icon_size (iconFor c d n) = n"
  by (simp add: iconFor_def)

subsection \<open>Properties of the tables\<close>

text \<open>\<open>labelFor\<close> names exactly the codes of the WMO table; every other
  code is ``Unknown''.\<close>

theorem labelFor_unknown_iff: "labelFor c = ''Unknown'' \<longleftrightarrow> c \<notin> set wmo_codes"
  by (simp add: labelFor_def wmo_codes_def)

text \<open>C21. The rain icon and the rain labels agree: \<open>iconFor\<close> shows rain
  exactly for the codes \<open>labelFor\<close> calls drizzle, rain or showers of rain, and
  snow exactly for the snow labels.\<close>

theorem icon_label_agree:
  "(icon_kind (iconFor c d n) = WiRain \<longleftrightarrow> labelFor c \<in> set rain_labels)
   \<and> (icon_kind (iconFor c d n) = WiSnow \<longleftrightarrow> labelFor c \<in> set snow_labels)"
  by (simp add: iconFor_def labelFor_def code_groups rain_labels_def snow_labels_def)

text \<open>Codes outside the table are labelled ``Unknown'' but drawn with
  the strong-wind icon, the fall-through of \<open>iconFor\<close>.\<close>

theorem unknown_code_wind_icon:
  assumes "c \<notin> set wmo_codes"
  shows "icon_kind (iconFor c d n) = WiStrongWind \<and> labelFor c = ''Unknown''"
  using assms by (simp add: iconFor_def labelFor_def code_groups wmo_codes_def)

theorem unknown_code_wind_icon_witness:
  "(4::int) \<notin> set wmo_codes \<and> icon_kind (iconFor 4 1 72) = WiStrongWind"
proof -
  have h: "(4::int) \<notin> set wmo_codes" by (simp add: wmo_codes_def)
  show ?thesis using unknown_code_wind_icon [OF h] h by simp
qed

text \<open>C34. The background follows the icon groups for rain and snow in both
  themes, while fog and thunderstorm codes fall back to the default
  background of their theme.\<close>

theorem gradient_follows_icon:
  "(gradientFor th c d = gradientFor th 61 d \<longleftrightarrow> icon_kind (iconFor c d' n) = WiRain)
   \<and> (c \<in> set fog_codes \<or> c \<in> set storm_codes \<longrightarrow> gradientFor th c d = gradientFor th 4 d)"
  by (cases th) (auto simp: gradientFor_def iconFor_def code_groups Let_def)

theorem gradient_follows_icon_witness:
  "((45::int) \<in> set fog_codes \<or> (45::int) \<in> set storm_codes) \<and> gradientFor Light 45 1 = gradientFor Light 4 1"
proof -
  have h: "(45::int) \<in> set fog_codes \<or> (45::int) \<in> set storm_codes" by (simp add: code_groups)
  show ?thesis using gradient_follows_icon [of Light 45 1 1 36] h by blast
qed

end
