(* ===== verification/Dates.thy ===== *)
theory Dates
  imports Prelude
begin

text \<open>
  The part of the JavaScript \<open>Date\<close> library the card calls
  (\<open>src/src/components/WeatherCard.jsx\<close> lines 399--407 and 462--472):
  \<open>new Date(s)\<close> on the strings the forecast service returns, and
  \<open>toLocaleDateString("en-GB", ...)\<close> with the options the card passes.
  A time value is milliseconds since 1970-01-01 UTC, \<open>None\<close> for an invalid
  date (\<open>NaN\<close>).  Following ECMAScript's Date Time String Format
  (section 21.4.1.32 of ECMA-262), a date-only string \<open>"YYYY-MM-DD"\<close> is read
  as UTC midnight, a date-time without offset \<open>"YYYY-MM-DDTHH:mm"\<close> as local
  time; out-of-range fields make the date invalid.  The browser's time zone is
  a fixed offset \<open>tz\<close> in minutes (local time minus UTC, the negation of
  \<open>getTimezoneOffset()\<close>); daylight-saving changes are not modelled.  Day
  numbers and calendar dates convert by the days-from-civil algorithm, with
  Isabelle's floor division on \<open>int\<close>, which is ECMAScript's
  \<open>Day(t) = floor(t / msPerDay)\<close>.  The month and weekday names are those of
  the \<open>en-GB\<close> locale data (CLDR), where September is \<open>"Sept"\<close>.
\<close>

subsection \<open>Parsing\<close>

definition digit_value :: "char \<Rightarrow> nat option" where
  "digit_value c = (let n = of_char c :: nat in if 48 \<le> n \<and> n \<le> 57 then Some (n - 48) else None)"

fun digits_acc :: "nat \<Rightarrow> string \<Rightarrow> nat option" where
  "digits_acc a [] = Some a"
| "digits_acc a (c # cs) = (case digit_value c of None \<Rightarrow> None | Some k \<Rightarrow> digits_acc (10 * a + k) cs)"

definition digits_value :: "string \<Rightarrow> nat option" where
  "digits_value s = (if s = [] then None else digits_acc 0 s)"

definition is_leap :: "int \<Rightarrow> bool" where
  "is_leap y \<longleftrightarrow> y mod 4 = 0 \<and> (y mod 100 \<noteq> 0 \<or> y mod 400 = 0)"

definition days_in_month :: "int \<Rightarrow> int \<Rightarrow> int" where
  "days_in_month y m =
     (if m = 2 then (if is_leap y then 29 else 28) else if m \<in> {4, 6, 9, 11} then 30 else 31)"

text \<open>The two shapes of the Date Time String Format the service uses:
  year, month and day, and optionally hours and minutes.\<close>

definition parse_iso :: "string \<Rightarrow> (int \<times> int \<times> int \<times> (int \<times> int) option) option" where
  "parse_iso s =
     (if (length s \<noteq> 10 \<and> length s \<noteq> 16) \<or> s ! 4 \<noteq> CHR ''-'' \<or> s ! 7 \<noteq> CHR ''-'' then None
      else (case (digits_value (take 4 s), digits_value (take 2 (drop 5 s)), digits_value (take 2 (drop 8 s))) of
          (Some y, Some m, Some d) \<Rightarrow>
            if m < 1 \<or> 12 < m \<or> d < 1 \<or> int d > days_in_month (int y) (int m) then None
            else if length s = 10 then Some (int y, int m, int d, None)
            else if s ! 10 \<noteq> CHR ''T'' \<or> s ! 13 \<noteq> CHR '':'' then None
            else (case (digits_value (take 2 (drop 11 s)), digits_value (take 2 (drop 14 s))) of
                (Some h, Some mi) \<Rightarrow>
                  if 59 < mi \<or> 24 < h \<or> (h = 24 \<and> mi \<noteq> 0) then None
                  else Some (int y, int m, int d, Some (int h, int mi))
              | _ \<Rightarrow> None)
        | _ \<Rightarrow> None))"

subsection \<open>Day numbers\<close>

text \<open>The number of the day \<open>y-m-d\<close> counted from 1970-01-01, and back.\<close>

definition days_from_civil :: "int \<Rightarrow> int \<Rightarrow> int \<Rightarrow> int" where
  "days_from_civil y m d =
     (let y' = (if m \<le> 2 then y - 1 else y); era = y' div 400; yoe = y' - era * 400;
          doy = (153 * ((m + 9) mod 12) + 2) div 5 + d - 1;
          doe = yoe * 365 + yoe div 4 - yoe div 100 + doy
      in era * 146097 + doe - 719468)"

definition civil_from_days :: "int \<Rightarrow> int \<times> int \<times> int" where
  "civil_from_days z =
     (let z' = z + 719468; era = z' div 146097; doe = z' - era * 146097;
          yoe = (doe - doe div 1460 + doe div 36524 - doe div 146096) div 365;
          doy = doe - (365 * yoe + yoe div 4 - yoe div 100);
          mp = (5 * doy + 2) div 153; d = doy - (153 * mp + 2) div 5 + 1;
          m = (if mp < 10 then mp + 3 else mp - 9)
      in (if m \<le> 2 then yoe + era * 400 + 1 else yoe + era * 400, m, d))"

subsection \<open>\<open>new Date(s)\<close> and the local calendar\<close>

definition date_value :: "int \<Rightarrow> string \<Rightarrow> int option" where
  "date_value tz s = (case parse_iso s of
      None \<Rightarrow> None
    | Some (y, m, d, None) \<Rightarrow> Some (days_from_civil y m d * 86400000)
    | Some (y, m, d, Some (h, mi)) \<Rightarrow> Some ((days_from_civil y m d * 1440 + h * 60 + mi - tz) * 60000))"

definition local_day :: "int \<Rightarrow> int \<Rightarrow> int" where
  "local_day tz t = (t + tz * 60000) div 86400000"

subsection \<open>\<open>toLocaleDateString("en-GB", ...)\<close>\<close>

definition weekday_short :: "int \<Rightarrow> string" where
  "weekday_short z = [''Thu'', ''Fri'', ''Sat'', ''Sun'', ''Mon'', ''Tue'', ''Wed''] ! nat (z mod 7)"

definition month_short :: "int \<Rightarrow> string" where
  "month_short m = [''Jan'', ''Feb'', ''Mar'', ''Apr'', ''May'', ''Jun'', ''Jul'', ''Aug'', ''Sept'', ''Oct'',
     ''Nov'', ''Dec''] ! nat (m - 1)"

definition two_digit :: "int \<Rightarrow> string" where
  "two_digit n = (if n < 10 then ''0'' @ decimal (nat n) else decimal (nat n))"

definition day_month_of :: "int \<Rightarrow> string" where
  "day_month_of z = (case civil_from_days z of (y, m, d) \<Rightarrow> two_digit d @ '' '' @ month_short m)"

definition full_date_of :: "int \<Rightarrow> string" where
  "full_date_of z = (case civil_from_days z of (y, m, d) \<Rightarrow> day_month_of z @ '' '' @ decimal (nat y))"

text \<open>The three option sets of the card: \<open>{weekday: "short"}\<close>,
  \<open>{day: "2-digit", month: "short"}\<close> and
  \<open>{day: "2-digit", month: "short", year: "numeric"}\<close>.\<close>

definition locale_weekday :: "int \<Rightarrow> string \<Rightarrow> string" where
  "locale_weekday tz s = (case date_value tz s of
      None \<Rightarrow> ''Invalid Date'' | Some t \<Rightarrow> weekday_short (local_day tz t))"

definition locale_day_month :: "int \<Rightarrow> string \<Rightarrow> string" where
  "locale_day_month tz s = (case date_value tz s of
      None \<Rightarrow> ''Invalid Date'' | Some t \<Rightarrow> day_month_of (local_day tz t))"

definition locale_full_date :: "int \<Rightarrow> string \<Rightarrow> string" where
  "locale_full_date tz s = (case date_value tz s of
      None \<Rightarrow> ''Invalid Date'' | Some t \<Rightarrow> full_date_of (local_day tz t))"

subsection \<open>Lemmas\<close>

lemma div_day_negative:
  assumes "- 86400000 \<le> k" and "k < 0"
  shows "k div (86400000::int) = -1"
proof -
  have "(k + 86400000) div (86400000::int) = 0" using assms by simp
  moreover have "(k + 86400000) div (86400000::int) = k div 86400000 + 1" by simp
  ultimately show ?thesis by simp
qed

lemma local_day_date_only:
  assumes "- 1440 < tz" and "tz < 1440"
  shows "local_day tz (D * 86400000) = D + (if tz < 0 then -1 else 0)"
proof (cases "tz < 0")
  case True
  have "(tz * 60000) div (86400000::int) = -1"
    using assms True by (intro div_day_negative) simp_all
  with True show ?thesis by (simp add: local_day_def)
next
  case False
  have "(tz * 60000) div (86400000::int) = 0" using assms False by simp
  with False show ?thesis by (simp add: local_day_def)
qed

lemma local_day_local_time:
  assumes "0 \<le> h * 60 + mi" and "h * 60 + mi < 1440"
  shows "local_day tz ((D * 1440 + h * 60 + mi - tz) * 60000) = D"
proof -
  have "(D * 1440 + h * 60 + mi - tz) * 60000 + tz * 60000 = (h * 60 + mi) * 60000 + D * 86400000"
    by (simp add: algebra_simps)
  moreover have "((h * 60 + mi) * 60000) div (86400000::int) = 0" using assms by simp
  ultimately show ?thesis by (simp only: local_day_def)
qed

lemma parse_iso_time_bounds:
  assumes "parse_iso s = Some (y, m, d, Some (h, mi))"
  shows "0 \<le> h \<and> 0 \<le> mi \<and> mi \<le> 59"
  using assms by (auto simp: parse_iso_def split: if_splits option.splits prod.splits)

text \<open>The epoch and the first days of 2025, evaluated.\<close>

lemma calendar_anchors:
  "days_from_civil 1970 1 1 = 0" "civil_from_days 0 = (1970, 1, 1)"
  "days_from_civil 2025 1 1 = 20089" "civil_from_days 20088 = (2024, 12, 31)"
  "weekday_short 20089 = ''Wed''"
  by code_simp+

end
