(* ===== verification/View.thy ===== *)
theory View
  imports Card Codes Dates
begin

text \<open>
  What the card shows (\<open>src/src/components/WeatherCard.jsx\<close> lines
  225--251 and 347--500), as a function of the state: the error banner, the loader, the
  current conditions (only when there is data and nothing is loading), the
  seven-day grid built by mapping over \<open>dailyForecast.time\<close> with the index,
  and the tip.  \<open>Math.round\<close> is \<open>\<lfloor>x + 1/2\<rfloor>\<close>; an array read past the end
  yields \<open>undefined\<close>, which \<open>Math.round\<close> turns into \<open>NaN\<close> (here \<open>None\<close>)
  and which makes \<open>iconFor\<close> fall back to its default \<open>code = 0\<close>.  The
  dates of the grid and of the panel are printed by the \<open>en-GB\<close> formatting
  of \<open>Dates\<close> in a browser time zone \<open>tz\<close> (\<open>day_labels\<close>,
  \<open>panel_date\<close>); the sunrise and sunset times, printed in the browser's
  default locale, are carried as raw strings.
\<close>

definition js_round :: "real \<Rightarrow> int" where
  "js_round x = \<lfloor>x + 1 / 2\<rfloor>"

text \<open>\<open>"\<degree>C"\<close> and \<open>"\<degree>F"\<close> (line 251), the degree sign U+00B0 as UTF-8.\<close>

definition unitLabel :: "temp_unit \<Rightarrow> string" where
  "unitLabel u = [CHR 0xC2, CHR 0xB0] @ (if u = Celsius then ''C'' else ''F'')"

record day_card =
  dc_date :: string
  dc_icon :: icon_elem
  dc_max :: "int option"
  dc_min :: "int option"

record current_view =
  cv_icon :: icon_elem
  cv_temp :: int
  cv_unit :: string
  cv_place :: string
  cv_condition :: string
  cv_wind :: int
  cv_wind_dir :: "int option"
  cv_sun :: "(string option \<times> string option) option"

text \<open>The \<open>Loader\<close> component (lines 225--249): a spinning SVG with
  \<open>role="status"\<close> and \<open>aria-label="Loading"\<close> and the text
  \<open>"Loading\<dots>"\<close> (U+2026 as UTF-8).\<close>

record loader_elem =
  loader_class :: string
  spinner_class :: string
  spinner_role :: string
  spinner_label :: string
  loader_text :: string

definition Loader :: loader_elem where
  "Loader = \<lparr>loader_class = ''flex items-center justify-center gap-3 py-6'',
     spinner_class = ''animate-spin h-5 w-5'', spinner_role = ''status'', spinner_label = ''Loading'',
     loader_text = ''Loading'' @ [CHR 0xE2, CHR 0x80, CHR 0xA6]\<rparr>"

record card_view =
  v_error :: "string option"
  v_loader :: "loader_elem option"
  v_current :: "current_view option"
  v_forecast :: "day_card list option"
  v_tip :: bool

text \<open>One card of the grid (lines 456--485).\<close>

definition day_card_at :: "daily \<Rightarrow> string \<Rightarrow> nat \<Rightarrow> day_card" where
  "day_card_at d date i =
     \<lparr>dc_date = date,
      dc_icon = iconFor (case js_nth (daily_weathercode d) i of None \<Rightarrow> 0 | Some c \<Rightarrow> c) 1 36,
      dc_max = map_option js_round (js_nth (temperature_2m_max d) i),
      dc_min = map_option js_round (js_nth (temperature_2m_min d) i)\<rparr>"

text \<open>\<open>dailyForecast.time.map((date, index) => ...)\<close>.\<close>

definition day_cards :: "daily \<Rightarrow> day_card list" where
  "day_cards d = map (\<lambda>(i, date). day_card_at d date i) (enumerate 0 (daily_time d))"

text \<open>The current conditions panel (lines 363--451); \<open>"\<bullet>"\<close> is U+2022 and the
  dash for a missing name U+2014, as UTF-8.\<close>

definition current_panel :: "card_state \<Rightarrow> current_weather \<Rightarrow> current_view" where
  "current_panel s cw =
     \<lparr>cv_icon = iconFor (weathercode cw) (is_day cw) 88,
      cv_temp = js_round (temperature cw),
      cv_unit = unitLabel (unit s),
      cv_place = (if displayName s = [] then [CHR 0xE2, CHR 0x80, CHR 0x94] else displayName s),
      cv_condition = labelFor (weathercode cw) @ '' '' @ [CHR 0xE2, CHR 0x80, CHR 0xA2] @ '' ''
                     @ (if is_day cw \<noteq> 0 then ''Day'' else ''Night''),
      cv_wind = js_round (windspeed cw),
      cv_wind_dir = map_option js_round (winddirection cw),
      cv_sun = map_option (\<lambda>d. (js_nth (sunrise d) 0, js_nth (sunset d) 0)) (dailyForecast s)\<rparr>"

definition render :: "card_state \<Rightarrow> card_view" where
  "render s =
     \<lparr>v_error = (if error s = [] then None else Some (error s)),
      v_loader = (if loading s then Some Loader else None),
      v_current = (case data s of Some cw \<Rightarrow> if loading s then None else Some (current_panel s cw)
                                 | None \<Rightarrow> None),
      v_forecast = (case data s of
                      Some cw \<Rightarrow> if loading s then None else map_option day_cards (dailyForecast s)
                    | None \<Rightarrow> None),
      v_tip = (data s = None \<and> \<not> loading s \<and> error s = [])\<rparr>"

text \<open>The dates the card prints in a browser whose time zone is \<open>tz\<close>:
  the weekday and day of each card of the grid (lines 466--479) and the date
  of the current panel (lines 402--408), empty when \<open>time\<close> is empty.\<close>

definition day_labels :: "int \<Rightarrow> daily \<Rightarrow> (string \<times> string) list" where
  "day_labels tz d = map (\<lambda>date. (locale_weekday tz date, locale_day_month tz date)) (daily_time d)"

definition panel_date :: "int \<Rightarrow> current_weather \<Rightarrow> string" where
  "panel_date tz cw = (if time cw = [] then [] else locale_full_date tz (time cw))"

subsection \<open>Examples\<close>

definition example_daily :: daily where
  "example_daily = \<lparr>daily_time = [''2025-01-01'', ''2025-01-02''], daily_weathercode = [61, 3],
     temperature_2m_max = [31.6, 30.2], temperature_2m_min = [24.4, 23.9],
     sunrise = [''06:31''], sunset = [''18:02'']\<rparr>"

subsection \<open>Lemmas\<close>

lemma length_day_cards [simp]: "length (day_cards d) = length (daily_time d)"
  by (simp add: day_cards_def)

lemma nth_day_cards:
  "i < length (daily_time d) \<Longrightarrow> day_cards d ! i = day_card_at d (daily_time d ! i) i"
  by (simp add: day_cards_def nth_enumerate_eq)

lemma js_round_bounds: "x - 1 / 2 < of_int (js_round x) \<and> of_int (js_round x) \<le> x + 1 / 2"
  unfolding js_round_def using of_int_floor_le [of "x + 1 / 2"] real_of_int_floor_add_one_gt [of "x + 1 / 2"]
  by linarith

lemma js_round_of_int [simp]: "js_round (of_int n) = n"
  by (simp add: js_round_def)

subsection \<open>Properties of the view\<close>

text \<open>The temperature, wind speed and wind
  direction shown in the current panel are within one half of the values of
  the answer, and a whole-number reading is shown as it is.\<close>

theorem displayed_values_bounds:
  "temperature cw - 1 / 2 < of_int (cv_temp (current_panel s cw))
   \<and> of_int (cv_temp (current_panel s cw)) \<le> temperature cw + 1 / 2
   \<and> windspeed cw - 1 / 2 < of_int (cv_wind (current_panel s cw))
   \<and> of_int (cv_wind (current_panel s cw)) \<le> windspeed cw + 1 / 2
   \<and> (temperature cw = of_int n \<longrightarrow> cv_temp (current_panel s cw) = n)"
  by (simp add: current_panel_def js_round_bounds)

theorem displayed_values_bounds_witness:
  "temperature (example_weather\<lparr>temperature := 30\<rparr>) = of_int 30
   \<and> cv_temp (current_panel card_s0 (example_weather\<lparr>temperature := 30\<rparr>)) = 30"
proof -
  have h: "temperature (example_weather\<lparr>temperature := 30\<rparr>) = of_int 30" by simp
  show ?thesis using displayed_values_bounds [of "example_weather\<lparr>temperature := 30\<rparr>" card_s0 30] h
    by simp
qed

text \<open>C38. The forecast grid is index-aligned: one card per entry of
  \<open>time\<close>, and card \<open>i\<close> shows the date, code, maximum and minimum of day
  \<open>i\<close> of the four arrays.\<close>

theorem day_cards_aligned:
  assumes "i < length (daily_time d)"
  shows "length (day_cards d) = length (daily_time d)
    \<and> dc_date (day_cards d ! i) = daily_time d ! i
    \<and> dc_max (day_cards d ! i) = map_option js_round (js_nth (temperature_2m_max d) i)
    \<and> dc_min (day_cards d ! i) = map_option js_round (js_nth (temperature_2m_min d) i)
    \<and> dc_icon (day_cards d ! i)
        = iconFor (case js_nth (daily_weathercode d) i of None \<Rightarrow> 0 | Some c \<Rightarrow> c) 1 36"
  using assms by (simp add: nth_day_cards day_card_at_def)

theorem day_cards_aligned_witness:
  "1 < length (daily_time example_daily) \<and> dc_max (day_cards example_daily ! 1) = Some 30
   \<and> icon_kind (dc_icon (day_cards example_daily ! 1)) = WiCloud"
proof -
  have h: "1 < length (daily_time example_daily)" by (simp add: example_daily_def)
  have r: "js_round (30.2 :: real) = 30" by (simp add: js_round_def)
  show ?thesis using day_cards_aligned [OF h] h r
    by (simp add: example_daily_def iconFor_def code_groups)
qed

text \<open>While loading, the current conditions and the grid are hidden and
  the loader is shown, whatever data the state holds; the tip is only shown
  with no data, no error and nothing loading.\<close>

theorem loading_hides_conditions:
  assumes "loading s"
  shows "v_current (render s) = None \<and> v_forecast (render s) = None \<and> v_loader (render s) = Some Loader
    \<and> \<not> v_tip (render s)"
  using assms by (simp add: render_def split: option.splits)

theorem loading_hides_conditions_witness:
  "loading (run card_s0 [Query_change ''Chennai'', Search]) \<and>
   v_current (render (run card_s0 [Query_change ''Chennai'', Search])) = None"
proof -
  have h: "loading (run card_s0 [Query_change ''Chennai'', Search])"
    by (simp add: card_s0_def card_eval)
  show ?thesis using loading_hides_conditions [OF h] h by simp
qed

text \<open>C40. A day whose weather code is missing from the \<open>weathercode\<close> array
  is drawn with the clear-sky sun: the read yields \<open>undefined\<close> and
  \<open>iconFor\<close>'s default parameter \<open>code = 0\<close> applies.\<close>

theorem missing_daily_code_shows_sun:
  assumes "i < length (daily_time d)" and "length (daily_weathercode d) \<le> i"
  shows "icon_kind (dc_icon (day_cards d ! i)) = WiDaySunny"
  using assms by (simp add: nth_day_cards day_card_at_def iconFor_def)

theorem missing_daily_code_shows_sun_witness:
  "1 < length (daily_time (example_daily\<lparr>daily_weathercode := [61]\<rparr>)) \<and>
   length (daily_weathercode (example_daily\<lparr>daily_weathercode := [61]\<rparr>)) \<le> 1 \<and>
   icon_kind (dc_icon (day_cards (example_daily\<lparr>daily_weathercode := [61]\<rparr>) ! 1)) = WiDaySunny"
proof -
  have h: "1 < length (daily_time (example_daily\<lparr>daily_weathercode := [61]\<rparr>))"
    "length (daily_weathercode (example_daily\<lparr>daily_weathercode := [61]\<rparr>)) \<le> 1"
    by (simp_all add: example_daily_def)
  show ?thesis using missing_daily_code_shows_sun [OF h] h by simp
qed

text \<open>C39. \<open>new Date(date)\<close> reads the date-only
  strings of \<open>daily.time\<close> as UTC midnight, and \<open>toLocaleDateString\<close>
  prints them in local time: in every time zone west of UTC each card of the
  grid shows the weekday and date of the day before its forecast day, while
  the current panel, whose \<open>time\<close> is a local date-time, shows the right
  date; at UTC and east of it both are right.\<close>

theorem dates_shift_west:
  assumes "i < length (daily_time d)" and "parse_iso (daily_time d ! i) = Some (y, m, dd, None)"
    and "parse_iso (time cw) = Some (y, m, dd, Some (h, mi))" and "h < 24"
    and "- 1440 < tz" and "tz < 1440"
  shows "day_labels tz d ! i
      = (weekday_short (days_from_civil y m dd + (if tz < 0 then -1 else 0)),
         day_month_of (days_from_civil y m dd + (if tz < 0 then -1 else 0)))
    \<and> panel_date tz cw = full_date_of (days_from_civil y m dd)"
proof -
  have b: "0 \<le> h * 60 + mi" "h * 60 + mi < 1440"
    using parse_iso_time_bounds [OF assms(3)] assms(4) by simp_all
  have "time cw \<noteq> []" using assms(3) by (auto simp: parse_iso_def)
  moreover have "date_value tz (time cw)
      = Some ((days_from_civil y m dd * 1440 + h * 60 + mi - tz) * 60000)"
    using assms(3) by (simp add: date_value_def)
  ultimately have "panel_date tz cw = full_date_of (days_from_civil y m dd)"
    by (simp only: panel_date_def locale_full_date_def local_day_local_time [OF b] if_False
        option.case)
  moreover have "day_labels tz d ! i
      = (weekday_short (days_from_civil y m dd + (if tz < 0 then -1 else 0)),
         day_month_of (days_from_civil y m dd + (if tz < 0 then -1 else 0)))"
    using assms(1,2) local_day_date_only [OF assms(5,6), of "days_from_civil y m dd"]
    by (simp add: day_labels_def locale_weekday_def locale_day_month_def date_value_def)
  ultimately show ?thesis by simp
qed

theorem dates_shift_west_witness:
  "0 < length (daily_time example_daily)
   \<and> parse_iso (daily_time example_daily ! 0) = Some (2025, 1, 1, None)
   \<and> parse_iso (time example_weather) = Some (2025, 1, 1, Some (12, 0)) \<and> (12::int) < 24
   \<and> - 1440 < (- 300::int) \<and> (- 300::int) < 1440
   \<and> day_labels (- 300) example_daily ! 0 = (''Tue'', ''31 Dec'')
   \<and> panel_date (- 300) example_weather = ''01 Jan 2025''"
proof -
  have h: "0 < length (daily_time example_daily)"
    "parse_iso (daily_time example_daily ! 0) = Some (2025, 1, 1, None)"
    "parse_iso (time example_weather) = Some (2025, 1, 1, Some (12, 0))" "(12::int) < 24"
    "- 1440 < (- 300::int)" "(- 300::int) < 1440"
    by (simp add: example_daily_def, code_simp, code_simp, simp_all)
  have e: "weekday_short (days_from_civil 2025 1 1 + - 1) = ''Tue''"
    "day_month_of (days_from_civil 2025 1 1 + - 1) = ''31 Dec''"
    "full_date_of (days_from_civil 2025 1 1) = ''01 Jan 2025''"
    by code_simp+
  show ?thesis using dates_shift_west [OF h] h e by simp
qed

end
