(* ===== verification/Theme.thy ===== *)
theory Theme
  imports Codes Fetch
begin

text \<open>
  The state of \<open>App\<close> (\<open>src/src/App.jsx\<close>): the theme, initialised from
  \<open>localStorage\<close> or the system preference (lines 51--60), persisted by an
  effect on every change (lines 62--64) and flipped by the header button
  (line 98); the class list of the page built with \<open>cx\<close> (line 6) from the
  theme and the weather \<open>meta\<close> (lines 69--84), and the header with the
  theme button and the footer (lines 86--127).  \<open>localStorage\<close> is the
  field \<open>stored\<close> (the value under the key \<open>"theme"\<close>); the system preference
  \<open>prefers-color-scheme: dark\<close> is an input.
\<close>

definition theme_str :: "theme \<Rightarrow> string" where
  "theme_str t = (case t of Light \<Rightarrow> ''light'' | Dark \<Rightarrow> ''dark'')"

text \<open>Lines 51--60.\<close>

definition initial_theme :: "string option \<Rightarrow> bool \<Rightarrow> theme" where
  "initial_theme saved prefersDark =
     (if saved = Some ''light'' then Light
      else if saved = Some ''dark'' then Dark
      else if prefersDark then Dark else Light)"

record app_state =
  theme :: theme
  stored :: "string option"

text \<open>The first render and the persisting effect (lines 51--64).\<close>

definition app_mount :: "string option \<Rightarrow> bool \<Rightarrow> app_state" where
  "app_mount saved prefersDark =
     (let t = initial_theme saved prefersDark in \<lparr>theme = t, stored = Some (theme_str t)\<rparr>)"

text \<open>The header button (line 98) and the effect it triggers.\<close>

definition toggle_theme :: "app_state \<Rightarrow> app_state" where
  "toggle_theme a =
     (let t = (if theme a = Dark then Light else Dark) in a\<lparr>theme := t, stored := Some (theme_str t)\<rparr>)"

text \<open>\<open>cx(...arr)\<close>: the truthy class names joined by spaces (line 6).\<close>

definition cx :: "string option list \<Rightarrow> string" where
  "cx xs = join '' '' (filter_truthy xs)"

text \<open>\<open>bgClass\<close> and the class of the root element (lines 69--84).\<close>

definition bgClass :: "theme \<Rightarrow> weather_meta \<Rightarrow> string" where
  "bgClass th m = cx [Some ''min-h-screen w-full transition-colors duration-700'',
                      Some (gradientFor th (code m) (isDay m))]"

definition root_class :: "theme \<Rightarrow> weather_meta \<Rightarrow> string" where
  "root_class th m = cx [Some (bgClass th m), Some (if th = Dark then ''text-slate-100'' else ''text-slate-900'')]"

text \<open>The header and footer of the page (lines 86--127).  The icon of the
  theme button, the title emoji U+1F324 U+FE0F, and the footer's U+00B7 and
  U+00A9 written as UTF-8; the year of \<open>new Date()\<close> is an input.\<close>

datatype header_icon = HiSun | HiMoon

record chrome_view =
  header_class :: string
  title :: string
  theme_button_class :: string
  theme_button_icon :: header_icon
  footer_class :: string
  footer_text :: string

definition chrome :: "theme \<Rightarrow> nat \<Rightarrow> chrome_view" where
  "chrome th year =
     \<lparr>header_class = cx [Some ''w-full px-4 py-3 flex items-center justify-between'',
        Some (if th = Dark then ''bg-white/10'' else ''bg-white/60''), Some ''backdrop-blur-md shadow-md''],
      title = [CHR 0xF0, CHR 0x9F, CHR 0x8C, CHR 0xA4, CHR 0xEF, CHR 0xB8, CHR 0x8F] @ '' Aganitha Weather Now App'',
      theme_button_class = cx [Some ''p-2 rounded-full transition-transform hover:scale-110'',
        Some (if th = Dark then ''bg-slate-800'' else ''bg-slate-200'')],
      theme_button_icon = (if th = Dark then HiSun else HiMoon),
      footer_class = cx [Some ''fixed bottom-0 left-0 w-full text-center py-3 text-sm shadow-md backdrop-blur-md'',
        Some (if th = Dark then ''text-white'' else ''text-gray-900'')],
      footer_text = ''Built by Naveed '' @ [CHR 0xC2, CHR 0xB7] @ '' '' @ [CHR 0xC2, CHR 0xA9] @ '' ''
        @ decimal year @ '' All rights reserved''\<rparr>"

subsection \<open>Lemmas\<close>

lemma initial_theme_str [simp]: "initial_theme (Some (theme_str t)) p = t"
  by (cases t) (simp_all add: initial_theme_def theme_str_def)

lemma toggle_theme_stored [simp]: "stored (toggle_theme a) = Some (theme_str (theme (toggle_theme a)))"
  by (simp add: toggle_theme_def Let_def)

lemma app_mount_stored [simp]: "stored (app_mount saved p) = Some (theme_str (theme (app_mount saved p)))"
  by (simp add: app_mount_def Let_def)

lemma toggles_stored: "stored ((toggle_theme ^^ n) (app_mount saved p))
   = Some (theme_str (theme ((toggle_theme ^^ n) (app_mount saved p))))"
  by (cases n) simp_all

lemma chrome_icon_names_next_theme:
  "theme_button_icon (chrome (theme a) y) = (if theme (toggle_theme a) = Light then HiSun else HiMoon)"
  by (simp add: chrome_def toggle_theme_def Let_def)

subsection \<open>Properties of the theme\<close>

text \<open>C37. The theme survives a reload: after the first render and any
  number of toggles, initialising a new page from the stored value gives back
  the current theme, whatever the system preference is then.\<close>

theorem theme_reload_roundtrip:
  "initial_theme (stored ((toggle_theme ^^ n) (app_mount saved p))) p'
     = theme ((toggle_theme ^^ n) (app_mount saved p))"
  by (simp add: toggles_stored)

text \<open>C35. A stored value other than \<open>"light"\<close> or \<open>"dark"\<close> is ignored and
  the system preference decides.\<close>

theorem invalid_saved_theme_uses_preference:
  assumes "saved \<noteq> Some ''light''" and "saved \<noteq> Some ''dark''"
  shows "theme (app_mount saved p) = (if p then Dark else Light)"
  using assms by (simp add: app_mount_def initial_theme_def Let_def)

theorem invalid_saved_theme_uses_preference_witness:
  "Some ''blue'' \<noteq> Some ''light'' \<and> Some ''blue'' \<noteq> Some ''dark'' \<and> theme (app_mount (Some ''blue'') True) = Dark"
proof -
  have h: "Some ''blue'' \<noteq> Some ''light''" "Some ''blue'' \<noteq> Some ''dark''" by simp_all
  show ?thesis using invalid_saved_theme_uses_preference [OF h, of True] h by simp
qed

end
