(* ===== verification/Status.thy ===== *)
theory Status
  imports Card
begin

text \<open>
  The coordinator's state machine of the spec (section 4.2:
  \<open>Idle \<rightarrow> Loading \<rightarrow> {Ready, Failed}\<close>, both able to re-enter \<open>Loading\<close>,
  \<open>Idle\<close> only before the first fetch) and its relation to the WeatherCard
  machine of \<open>Card\<close>.  The code keeps no status variable; \<open>status_of\<close> reads
  it off the cells the spec's SessionState names: \<open>loading\<close>, then a shown
  \<open>error\<close>, then whether conditions are present.  The simulation lemma shows
  that every step of a reachable state stutters, takes a transition of the
  spec's machine, or enters \<open>Failed\<close> by an event that writes an error;
  entering \<open>Failed\<close> from \<open>Idle\<close> or \<open>Ready\<close> without a fetch is the one
  departure, because the card shows geolocation and lookup errors in the same
  \<open>error\<close> cell.
\<close>

datatype coord_status = Idle | Loading | Ready | Failed

definition status_of :: "card_state \<Rightarrow> coord_status" where
  "status_of s = (if loading s then Loading else if error s \<noteq> [] then Failed
                  else if data s = None then Idle else Ready)"

text \<open>The transitions of the spec's machine.\<close>

inductive spec_status_step :: "coord_status \<Rightarrow> coord_status \<Rightarrow> bool" where
  first_fetch: "spec_status_step Idle Loading"
| succeeded: "spec_status_step Loading Ready"
| failed: "spec_status_step Loading Failed"
| refetch_ready: "spec_status_step Ready Loading"
| refetch_failed: "spec_status_step Failed Loading"

text \<open>The events whose handlers write a non-empty error: the geolocation error
  callback, the answer to a forward lookup and the answer to a forecast
  request.\<close>

fun writes_error :: "event \<Rightarrow> bool" where
  "writes_error (Position_denied _) = True"
| "writes_error (Geocode_response _ _) = True"
| "writes_error (Forecast_response _ _) = True"
| "writes_error _ = False"

text \<open>The auxiliary invariant: in the \<open>Idle\<close> state no forecast is in flight.\<close>

definition idle_inv :: "card_state \<Rightarrow> bool" where
  "idle_inv s \<longleftrightarrow> (status_of s = Idle \<longrightarrow> (\<forall>a. Await_forecast a \<notin> set (pending s)))"

text \<open>A refresh after geolocation and a unit toggle, all answers successful,
  leaving the position request of the toggle pending.\<close>

definition trace_refresh_then_denied :: "event list" where
  "trace_refresh_then_denied = [Position_ok 0 10 20, Reverse_response 0 Transport_error,
     Forecast_response 0 (forecast_ok example_weather), Toggle_unit,
     Forecast_response 0 (forecast_ok example_weather), Forecast_response 1 (forecast_ok example_weather)]"

subsection \<open>Lemmas\<close>

inductive_simps spec_status_step_Ready: "spec_status_step Ready t"

lemma messages_nonempty [simp]:
  "location_error_msg \<noteq> []" "search_error_text e \<noteq> []"
  by (simp_all add: location_error_msg_def search_error_text_def city_not_found_msg_def place_error_msg_def)

lemma fetch_start_loading: "loading (fetch_start a s) \<longleftrightarrow> loading s \<or> lastFetch s \<noteq> Some (key_of a)"
  by (simp add: fetch_start_def)

lemma fetch_start_error: "error (fetch_start a s) = (if lastFetch s = Some (key_of a) then error s else [])"
  by (simp add: fetch_start_def)

text \<open>What one step can do to the status: an error disappears only when a
  load starts, conditions never disappear and change only through a pending
  forecast, a new forecast turns loading on, and loading ends with an error
  or with conditions.\<close>

lemma step_error_cleared:
  assumes "\<not> loading (step s e)" and "error (step s e) = []"
  shows "error s = []"
  using assms
  by (cases e) (auto simp: handler_defs fetch_start_loading fetch_start_error fetch_finish_def Let_def
      split: option.splits task.splits sum.splits prod.splits if_splits)

lemma step_error_unwritten:
  assumes "\<not> writes_error e"
  shows "error (step s e) = error s \<or> error (step s e) = []"
  using assms
  by (cases e) (auto simp: handler_defs fetch_start_error Let_def split: option.splits task.splits)

lemma step_data_kept: "data s \<noteq> None \<Longrightarrow> data (step s e) \<noteq> None"
  by (cases e) (auto simp: handler_defs fetch_finish_def Let_def
      split: option.splits task.splits sum.splits prod.splits)

lemma step_data_changed:
  assumes "data (step s e) \<noteq> data s"
  shows "\<exists>a. Await_forecast a \<in> set (pending s)"
  using assms
  by (cases e) (auto simp: handler_defs Let_def js_nth_Some_iff
      split: option.splits task.splits sum.splits prod.splits if_splits, metis nth_mem)

lemma step_new_forecast_loading:
  assumes "Await_forecast a \<in> set (pending (step s e))" and "Await_forecast a \<notin> set (pending s)"
  shows "loading (step s e)"
  using assms
  by (cases e) (auto simp: handler_defs fetch_start_pending fetch_start_loading Let_def
      dest: in_set_drop_at split: option.splits task.splits sum.splits prod.splits if_splits)

lemma step_loading_ended:
  assumes "fetch_inv s" and "loading s" and "\<not> loading (step s e)"
  shows "error (step s e) \<noteq> [] \<or> data (step s e) \<noteq> None"
  using assms
  by (cases e) (auto simp: handler_defs fetch_start_loading fetch_finish_def fetch_inv_def Let_def
      split: option.splits task.splits sum.splits prod.splits if_splits)

lemma idle_step:
  assumes "fetch_inv s" and "status_of (step s e) = Idle"
  shows "status_of s = Idle"
proof -
  have after: "\<not> loading (step s e)" "error (step s e) = []" "data (step s e) = None"
    using assms(2) by (auto simp: status_of_def split: if_splits)
  have "error s = []" using step_error_cleared [OF after(1,2)] .
  moreover have "data s = None" using step_data_kept after(3) by blast
  moreover have "\<not> loading s" using step_loading_ended [OF assms(1)] after by blast
  ultimately show ?thesis by (simp add: status_of_def)
qed

lemma idle_inv_step:
  assumes "fetch_inv s" and "idle_inv s"
  shows "idle_inv (step s e)"
  unfolding idle_inv_def
proof (intro impI allI)
  fix a
  assume idle: "status_of (step s e) = Idle"
  then have "\<not> loading (step s e)" by (simp add: status_of_def split: if_splits)
  moreover have "Await_forecast a \<notin> set (pending s)"
    using assms idle_step [OF assms(1) idle] by (simp add: idle_inv_def)
  ultimately show "Await_forecast a \<notin> set (pending (step s e))"
    using step_new_forecast_loading by blast
qed

lemma idle_inv_initial: "idle_inv (initial_state g orig)"
  by (simp add: idle_inv_def initial_state_def geolocation_effect_def coords_effect_def)

lemma reach_idle_inv: "reach s \<Longrightarrow> idle_inv s"
  by (induction rule: reach.induct) (simp_all add: idle_inv_initial idle_inv_step reach_fetch_inv)

lemma ready_step:
  assumes "fetch_inv s" and "idle_inv s" and "status_of (step s e) = Ready"
  shows "status_of s = Loading \<or> status_of s = Ready"
proof (cases "loading s")
  case False
  have after: "\<not> loading (step s e)" "error (step s e) = []" "data (step s e) \<noteq> None"
    using assms(3) by (auto simp: status_of_def split: if_splits)
  have err: "error s = []" using step_error_cleared [OF after(1,2)] .
  have "data s \<noteq> None"
  proof
    assume "data s = None"
    with False err have "\<forall>a. Await_forecast a \<notin> set (pending s)"
      using assms(2) by (simp add: idle_inv_def status_of_def)
    then have "data (step s e) = data s" using step_data_changed by blast
    with after(3) \<open>data s = None\<close> show False by simp
  qed
  with False err show ?thesis by (simp add: status_of_def)
qed (simp add: status_of_def)

lemma failed_step:
  assumes "\<not> writes_error e" and "status_of (step s e) = Failed"
  shows "status_of s = Failed \<or> status_of s = Loading"
proof -
  have "error (step s e) \<noteq> []" using assms(2) by (simp add: status_of_def split: if_splits)
  then have "error s \<noteq> []" using step_error_unwritten [OF assms(1), of s] by auto
  then show ?thesis by (simp add: status_of_def)
qed

subsection \<open>Properties of the coordinator status\<close>

text \<open>C7. Every step of a reachable state of the card either keeps
  the coordinator's status, takes a transition of the spec's machine, or enters
  \<open>Failed\<close> by an event that writes an error (a denied position, a lookup
  answer or a forecast answer): \<open>Idle\<close> is never re-entered, \<open>Ready\<close> is
  reached only from \<open>Loading\<close> or \<open>Ready\<close>, and no user action or other
  answer makes the card fail outside a load.\<close>

theorem status_refines_spec:
  assumes "reach s"
  shows "status_of (step s e) = status_of s \<or> spec_status_step (status_of s) (status_of (step s e))
    \<or> (status_of (step s e) = Failed \<and> writes_error e)"
proof -
  have inv: "fetch_inv s" "idle_inv s" using assms by (simp_all add: reach_fetch_inv reach_idle_inv)
  show ?thesis
  proof (cases "status_of (step s e)")
    case Idle
    then show ?thesis using idle_step [OF inv(1) Idle] by simp
  next
    case Ready
    then show ?thesis using ready_step [OF inv Ready] by (auto intro: spec_status_step.intros)
  next
    case Loading
    then show ?thesis by (cases "status_of s") (auto intro: spec_status_step.intros)
  next
    case Failed
    then show ?thesis using failed_step [of e s] by (auto intro: spec_status_step.intros)
  qed
qed

theorem status_refines_spec_witness:
  "reach (step card_s0 (Query_change ''Chennai''))
   \<and> status_of (step card_s0 (Query_change ''Chennai'')) = Idle
   \<and> status_of (run card_s0 [Query_change ''Chennai'', Search]) = Loading
   \<and> (status_of (step (step card_s0 (Query_change ''Chennai'')) Search) = status_of (step card_s0 (Query_change ''Chennai''))
      \<or> spec_status_step (status_of (step card_s0 (Query_change ''Chennai''))) (status_of (step (step card_s0 (Query_change ''Chennai'')) Search))
      \<or> (status_of (step (step card_s0 (Query_change ''Chennai'')) Search) = Failed \<and> writes_error Search))"
proof -
  have h: "reach (step card_s0 (Query_change ''Chennai''))"
    by (rule reach.reach_step) (simp add: card_s0_def reach.reach_init)
  have "status_of (step card_s0 (Query_change ''Chennai'')) = Idle"
    "status_of (run card_s0 [Query_change ''Chennai'', Search]) = Loading"
    by (simp_all add: status_of_def card_s0_def card_eval)
  then show ?thesis using status_refines_spec [OF h, of Search] h by simp
qed

text \<open>C23. The departure happens for every card showing fresh
  conditions (\<open>Ready\<close>) with a position request in flight, such as the one
  a unit toggle makes: its denial shows an error next to the conditions, a
  transition \<open>Ready \<rightarrow> Failed\<close> that the spec's machine does not have, made
  without a request and without touching the data.\<close>

theorem ready_fails_without_fetch:
  assumes "status_of s = Ready" and "js_nth (pending s) i = Some (Await_position u)"
  shows "status_of (step s (Position_denied i)) = Failed
    \<and> \<not> spec_status_step (status_of s) (status_of (step s (Position_denied i)))
    \<and> data (step s (Position_denied i)) = data s
    \<and> issued (step s (Position_denied i)) = issued s"
proof -
  have "\<not> loading s" using assms(1) by (simp add: status_of_def split: if_splits)
  then have "status_of (step s (Position_denied i)) = Failed"
    using assms(2) by (simp add: status_of_def position_error_def resume_def)
  with assms show ?thesis by (simp add: spec_status_step_Ready position_error_def resume_def)
qed

theorem ready_fails_without_fetch_witness:
  "status_of (run card_g0 trace_refresh_then_denied) = Ready
   \<and> js_nth (pending (run card_g0 trace_refresh_then_denied)) 0 = Some (Await_position Fahrenheit)
   \<and> status_of (step (run card_g0 trace_refresh_then_denied) (Position_denied 0)) = Failed
   \<and> data (step (run card_g0 trace_refresh_then_denied) (Position_denied 0)) = Some example_weather"
proof -
  have h: "status_of (run card_g0 trace_refresh_then_denied) = Ready"
    "js_nth (pending (run card_g0 trace_refresh_then_denied)) 0 = Some (Await_position Fahrenheit)"
    by code_simp+
  have d: "data (run card_g0 trace_refresh_then_denied) = Some example_weather" by code_simp
  show ?thesis using ready_fails_without_fetch [OF h] h d by simp
qed

end
