(* ===== verification/Liveness.thy ===== *)
theory Liveness
  imports Card
begin

text \<open>
  Progress of the WeatherCard machine of \<open>Card\<close>.  Every pending
  continuation can be answered by the outside world, and the model shows that
  answering them ends: \<open>drain\<close> answers the oldest pending call with a
  failure (transport error, denied position, failed clipboard write, timer
  fired) until nothing is pending.  Its termination measure weighs each
  pending continuation by the calls its failure can still cause: a failed
  reverse lookup still fetches the forecast (lines 170--174) and a failed
  clipboard write still sets the message timer (line 221), so both weigh 2;
  every other continuation weighs 1.  From every reachable state the drained
  card has nothing in flight, is not loading and shows the conditions it
  showed before.  A search, and the geolocation flow, whose answers all
  succeed end in the state the spec describes.
\<close>

fun task_weight :: "task \<Rightarrow> nat" where
  "task_weight (Await_reverse _ _ _) = 2"
| "task_weight Await_clipboard = 2"
| "task_weight _ = 1"

definition pending_weight :: "task list \<Rightarrow> nat" where
  "pending_weight ts = sum_list (map task_weight ts)"

text \<open>A failing answer to the continuation at the head of \<open>pending\<close>.\<close>

fun failing_answer :: "task \<Rightarrow> event" where
  "failing_answer (Await_forecast _) = Forecast_response 0 Transport_error"
| "failing_answer (Await_geocode _) = Geocode_response 0 Transport_error"
| "failing_answer (Await_reverse _ _ _) = Reverse_response 0 Transport_error"
| "failing_answer (Await_position _) = Position_denied 0"
| "failing_answer Await_clipboard = Clipboard_result 0 False"
| "failing_answer Await_timer = Timer_fired 0"

function drain :: "card_state \<Rightarrow> event list" where
  "drain s = (case pending s of [] \<Rightarrow> []
     | t # _ \<Rightarrow> failing_answer t # drain (step s (failing_answer t)))"
  by pat_completeness auto
termination
proof (relation "measure (\<lambda>s. pending_weight (pending s))")
  fix s :: card_state and t ts
  assume "pending s = t # ts"
  then show "(step s (failing_answer t), s) \<in> measure (\<lambda>s. pending_weight (pending s))"
    by (cases t) (auto simp: pending_weight_def drop_at_def resume_def reverse_resume_def
        share_resume_def position_error_def search_resume_def resolveCity_def fetch_start_pending Let_def)
qed simp

text \<open>The answers of a search whose lookups succeed: the geocoding answer,
  then the two forecast requests it causes (the one of \<open>onSearch\<close> and the one
  of the coords effect), oldest first.\<close>

definition search_schedule :: "geo_json response \<Rightarrow> forecast_json response \<Rightarrow> event list" where
  "search_schedule g r = [Search, Geocode_response 0 g, Forecast_response 0 r, Forecast_response 0 r]"

text \<open>The answers of the geolocation flow: the position, the reverse lookup,
  then the forecast requests of the coords effect and of the success
  callback, oldest first.\<close>

definition geolocation_schedule :: "coord \<Rightarrow> coord \<Rightarrow> geo_json response \<Rightarrow> forecast_json response \<Rightarrow> event list" where
  "geolocation_schedule x y g r = [Position_ok 0 x y, Reverse_response 0 g, Forecast_response 0 r, Forecast_response 0 r]"

subsection \<open>Lemmas\<close>

declare drain.simps [simp del]

lemma drop_at_0 [simp]: "drop_at 0 (t # ts) = ts"
  by (simp add: drop_at_def)

lemma pending_weight_simps [simp]:
  "pending_weight [] = 0" "pending_weight (t # ts) = task_weight t + pending_weight ts"
  "pending_weight (ts @ us) = pending_weight ts + pending_weight us"
  by (simp_all add: pending_weight_def)

lemma failing_answer_decreases:
  assumes "pending s = t # ts"
  shows "pending_weight (pending (step s (failing_answer t))) < task_weight t + pending_weight ts"
  using assms
  by (cases t) (auto simp: resume_def reverse_resume_def share_resume_def position_error_def
      search_resume_def resolveCity_def fetch_start_pending Let_def)

lemma failing_answer_keeps_data:
  assumes "pending s = t # ts"
  shows "data (step s (failing_answer t)) = data s"
  using assms
  by (cases t) (auto simp: resume_def reverse_resume_def share_resume_def position_error_def
      search_resume_def resolveCity_def fetch_finish_def forecast_result_def Let_def)

lemma drain_empties: "pending (run s (drain s)) = []"
proof (induction s rule: drain.induct)
  case (1 s)
  then show ?case by (cases "pending s") (simp_all add: drain.simps)
qed

lemma drain_keeps_data: "data (run s (drain s)) = data s"
proof (induction s rule: drain.induct)
  case (1 s)
  then show ?case
    by (cases "pending s") (simp_all add: drain.simps failing_answer_keeps_data)
qed

subsection \<open>Progress\<close>

text \<open>C8. From every reachable state, answering the pending
  calls one by one with failures leaves nothing in flight, turns the loading
  indicator off, and keeps the conditions that were shown.\<close>

theorem drain_settles:
  assumes "reach s"
  shows "pending (run s (drain s)) = [] \<and> \<not> loading (run s (drain s)) \<and> data (run s (drain s)) = data s"
proof -
  have "loading_inv (run s (drain s))" using reach_loading_inv [OF reach_run [OF assms]] .
  then show ?thesis by (simp add: loading_inv_def drain_empties drain_keeps_data)
qed

theorem drain_settles_witness:
  "reach (run card_g0 [Query_change ''Chennai'', Search])
   \<and> pending (run (run card_g0 [Query_change ''Chennai'', Search]) (drain (run card_g0 [Query_change ''Chennai'', Search]))) = []
   \<and> \<not> loading (run (run card_g0 [Query_change ''Chennai'', Search]) (drain (run card_g0 [Query_change ''Chennai'', Search])))"
proof -
  have h: "reach (run card_g0 [Query_change ''Chennai'', Search])"
    by (rule reach_run) (simp add: card_g0_def reach.reach_init)
  show ?thesis using drain_settles [OF h] h by simp
qed

text \<open>The drain loop ends: it answers at most as many
  calls as the weight of what is pending.\<close>

theorem drain_length: "length (drain s) \<le> pending_weight (pending s)"
proof (induction s rule: drain.induct)
  case (1 s)
  show ?case
  proof (cases "pending s")
    case (Cons t ts)
    then have "length (drain (step s (failing_answer t))) < task_weight t + pending_weight ts"
      using 1 failing_answer_decreases [OF Cons] by fastforce
    with Cons show ?thesis by (simp add: drain.simps)
  qed (simp add: drain.simps)
qed

text \<open>C9. A search from a card with nothing in flight,
  whose lookup finds a place with a fresh key and whose forecast requests both
  succeed, ends with nothing in flight, not loading, no error, the answer's
  conditions and forecast shown, the place's coordinates and label, and the
  key remembered.\<close>

theorem search_completes:
  assumes "pending s = []" and "js_trim (query s) \<noteq> []" and "resolveCity g = Inr (x, y, l)"
    and "lastFetch s \<noteq> Some (x, y, unit s)" and "forecast_result r = Some (cw, d)"
  shows "pending (run s (search_schedule g r)) = [] \<and> \<not> loading (run s (search_schedule g r))
    \<and> error (run s (search_schedule g r)) = [] \<and> data (run s (search_schedule g r)) = Some cw
    \<and> dailyForecast (run s (search_schedule g r)) = d \<and> coords (run s (search_schedule g r)) = Some (x, y)
    \<and> displayName (run s (search_schedule g r)) = l
    \<and> lastFetch (run s (search_schedule g r)) = Some (x, y, unit s)"
  using assms
  by (simp add: search_schedule_def onSearch_def search_resume_def resume_def coords_effect_def
      fetch_start_def fetch_finish_def key_of_def Let_def drop_at_def js_nth_def)

theorem search_completes_witness:
  "pending (step card_s0 (Query_change ''London'')) = []
   \<and> js_trim (query (step card_s0 (Query_change ''London''))) \<noteq> []
   \<and> resolveCity (geo_ok example_london) = Inr (51.51, -0.13, formatLocationLabel (Some example_london))
   \<and> lastFetch (step card_s0 (Query_change ''London'')) \<noteq> Some (51.51, -0.13, unit (step card_s0 (Query_change ''London'')))
   \<and> forecast_result (forecast_ok example_weather) = Some (example_weather, None)
   \<and> data (run (step card_s0 (Query_change ''London'')) (search_schedule (geo_ok example_london) (forecast_ok example_weather)))
       = Some example_weather"
proof -
  have h1: "pending (step card_s0 (Query_change ''London'')) = []"
    and h2: "js_trim (query (step card_s0 (Query_change ''London''))) \<noteq> []"
    and h4: "lastFetch (step card_s0 (Query_change ''London'')) \<noteq> Some (51.51, -0.13, unit (step card_s0 (Query_change ''London'')))"
    by (simp_all add: card_s0_def card_eval)
  have h3: "resolveCity (geo_ok example_london) = Inr (51.51, -0.13, formatLocationLabel (Some example_london))"
    by (simp add: resolveCity_def geo_ok_def example_london_def)
  have h5: "forecast_result (forecast_ok example_weather) = Some (example_weather, None)"
    by (simp add: forecast_result_def forecast_ok_def)
  show ?thesis using search_completes [OF h1 h2 h3 h4 h5] h1 h2 h3 h4 h5 by simp
qed

text \<open>C33. The geolocation flow with successful
  answers, from a card waiting only for the position: it ends with nothing in
  flight, not loading, no error, the answer's conditions shown, the device
  coordinates and the reverse lookup's label, and the key remembered.\<close>

theorem geolocation_completes:
  assumes "pending s = [Await_position u]" and "unit s = u" and "lastFetch s \<noteq> Some (x, y, u)"
    and "reverseLabel g = Some l" and "l \<noteq> []" and "forecast_result r = Some (cw, d)"
  shows "pending (run s (geolocation_schedule x y g r)) = [] \<and> \<not> loading (run s (geolocation_schedule x y g r))
    \<and> error (run s (geolocation_schedule x y g r)) = [] \<and> data (run s (geolocation_schedule x y g r)) = Some cw
    \<and> coords (run s (geolocation_schedule x y g r)) = Some (x, y)
    \<and> displayName (run s (geolocation_schedule x y g r)) = l
    \<and> lastFetch (run s (geolocation_schedule x y g r)) = Some (x, y, u)"
  using assms
  by (simp add: geolocation_schedule_def position_success_def reverse_resume_def resume_def coords_effect_def
      fetch_start_def fetch_finish_def key_of_def Let_def drop_at_def js_nth_def)

theorem geolocation_completes_witness:
  "pending card_g0 = [Await_position Celsius] \<and> unit card_g0 = Celsius
   \<and> lastFetch card_g0 \<noteq> Some (13.08, 80.27, Celsius)
   \<and> reverseLabel (geo_ok example_chennai) = Some (formatLocationLabel (Some example_chennai))
   \<and> formatLocationLabel (Some example_chennai) \<noteq> []
   \<and> forecast_result (forecast_ok example_weather) = Some (example_weather, None)
   \<and> displayName (run card_g0 (geolocation_schedule 13.08 80.27 (geo_ok example_chennai) (forecast_ok example_weather)))
       = formatLocationLabel (Some example_chennai)"
proof -
  have h1: "pending card_g0 = [Await_position Celsius]" and h2: "unit card_g0 = Celsius"
    and h3: "lastFetch card_g0 \<noteq> Some (13.08, 80.27, Celsius)"
    by (simp_all add: card_g0_def card_eval)
  have h4: "reverseLabel (geo_ok example_chennai) = Some (formatLocationLabel (Some example_chennai))"
    by (simp add: reverseLabel_def geo_ok_def)
  have h5: "formatLocationLabel (Some example_chennai) \<noteq> []"
    by (simp add: formatLocationLabel_def example_chennai_def)
  have h6: "forecast_result (forecast_ok example_weather) = Some (example_weather, None)"
    by (simp add: forecast_result_def forecast_ok_def)
  show ?thesis using geolocation_completes [OF h1 h2 h3 h4 h5 h6] h1 h2 h3 h4 h5 h6 by simp
qed

end
