(* ===== verification/Controls.thy ===== *)
theory Controls
  imports Card Theme
begin

text \<open>
  The controls of the card (\<open>src/src/components/WeatherCard.jsx\<close> lines
  79--91 and 253--346): the card's class list, the search input, the search
  button, the unit toggle, the share button and the share message, and how
  the browser turns what the user does on them into the events of the
  \<open>Card\<close> machine.  The input's \<open>onKeyDown\<close> calls \<open>onSearch\<close> on Enter
  (line 274); the search button has \<open>disabled={loading}\<close> (line 288), and a
  disabled button fires no click, so \<open>dispatch\<close> drops the click while
  loading.  \<open>"Searching\<dots>"\<close> ends in U+2026, written as UTF-8.
\<close>

text \<open>\<open>cardClass\<close> (lines 79--91).\<close>

definition cardClass :: "theme \<Rightarrow> string" where
  "cardClass th = cx [Some ''w-full mx-auto max-w-3xl rounded-2xl shadow-xl p-5 sm:p-6 md:p-8 transition-colors'',
     Some ''backdrop-blur-md border'',
     Some (if th = Dark then ''bg-white/10 border-white/15'' else ''bg-black/30 border-white/30'')]"

record controls_view =
  input_value :: string
  input_class :: string
  search_disabled :: bool
  search_class :: string
  search_text :: string
  toggle_class :: string
  share_class :: string
  share_banner :: "(string \<times> string) option"

text \<open>Lines 262--346: the controls as a function of the theme and the state.\<close>

definition controls :: "theme \<Rightarrow> card_state \<Rightarrow> controls_view" where
  "controls th s =
     \<lparr>input_value = query s,
      input_class = cx [Some ''w-full pl-9 pr-3 py-3 rounded-xl outline-none border'', Some ''transition'',
        Some (if th = Dark
              then ''bg-slate-800/60 border-slate-600 text-slate-100 placeholder:text-slate-400''
              else ''bg-white/70 border-slate-300 text-slate-900 placeholder:text-slate-500'')],
      search_disabled = loading s,
      search_class = cx [Some ''px-4 py-3 rounded-xl font-semibold inline-flex items-center justify-center gap-2 transition cursor-pointer'',
        Some (if loading s then ''opacity-70'' else ''hover:scale-[1.02]''),
        Some (if th = Dark then ''bg-indigo-600 text-white'' else ''bg-sky-600 text-white'')],
      search_text = (if loading s then ''Searching'' @ [CHR 0xE2, CHR 0x80, CHR 0xA6] else ''Search''),
      toggle_class = cx [Some ''px-4 py-3 rounded-xl font-semibold transition cursor-zoom-in'',
        Some (if th = Dark then ''bg-slate-700 text-slate-100 hover:bg-slate-600''
              else ''bg-slate-200 text-slate-900 hover:bg-slate-300'')],
      share_class = cx [Some ''px-4 py-3 rounded-xl font-semibold inline-flex items-center justify-center gap-2 transition cursor-pointer'',
        Some (if th = Dark then ''bg-emerald-600 text-white hover:bg-emerald-500''
              else ''bg-emerald-500 text-white hover:bg-emerald-600'')],
      share_banner = (if truthy (Some (shareMessage s))
        then Some (cx [Some ''mt-3 px-4 py-2 rounded-xl text-sm font-medium text-center'',
                       Some (if th = Dark then ''bg-emerald-900/40 text-emerald-200''
                             else ''bg-emerald-100 text-emerald-700'')], shareMessage s)
        else None)\<rparr>"

text \<open>What the user does on the controls.\<close>

datatype ui_action =
    Input_change string
  | Key_down string
  | Click_search
  | Click_unit_toggle
  | Click_share

text \<open>The handlers wired in lines 273--274, 287--288, 304--306 and 319.\<close>

definition dispatch :: "card_state \<Rightarrow> ui_action \<Rightarrow> event option" where
  "dispatch s a = (case a of
      Input_change q \<Rightarrow> Some (Query_change q)
    | Key_down k \<Rightarrow> (if k = ''Enter'' then Some Search else None)
    | Click_search \<Rightarrow> (if loading s then None else Some Search)
    | Click_unit_toggle \<Rightarrow> Some Toggle_unit
    | Click_share \<Rightarrow> Some Share)"

definition ui_step :: "card_state \<Rightarrow> ui_action \<Rightarrow> card_state" where
  "ui_step s a = (case dispatch s a of None \<Rightarrow> s | Some e \<Rightarrow> step s e)"

subsection \<open>Lemmas\<close>

lemma controls_search:
  "search_disabled (controls th s) = loading s"
  "search_text (controls th s) = (if loading s then ''Searching'' @ [CHR 0xE2, CHR 0x80, CHR 0xA6] else ''Search'')"
  by (simp_all add: controls_def)

subsection \<open>Properties of the controls\<close>

text \<open>C24. While loading, the search button is
  disabled and a click on it changes nothing, but Enter in the input still
  runs \<open>onSearch\<close>: with a non-blank query a second geocoding request is
  issued and a second lookup is pending beside the first.\<close>

theorem enter_bypasses_disabled:
  assumes "loading s" and "js_trim (query s) \<noteq> []"
  shows "search_disabled (controls th s) \<and> ui_step s Click_search = s
    \<and> issued (ui_step s (Key_down ''Enter'')) = issued s @ [Geocode_req (js_trim (query s))]
    \<and> pending (ui_step s (Key_down ''Enter'')) = pending s @ [Await_geocode (unit s)]"
  using assms by (simp add: controls_search ui_step_def dispatch_def onSearch_def Let_def)

theorem enter_bypasses_disabled_witness:
  "loading (run card_s0 [Query_change ''Chennai'', Search])
   \<and> js_trim (query (run card_s0 [Query_change ''Chennai'', Search])) \<noteq> []
   \<and> pending (ui_step (run card_s0 [Query_change ''Chennai'', Search]) (Key_down ''Enter''))
       = [Await_geocode Celsius, Await_geocode Celsius]"
proof -
  have h: "loading (run card_s0 [Query_change ''Chennai'', Search])"
    "js_trim (query (run card_s0 [Query_change ''Chennai'', Search])) \<noteq> []"
    and p: "pending (run card_s0 [Query_change ''Chennai'', Search]) = [Await_geocode Celsius]"
      "unit (run card_s0 [Query_change ''Chennai'', Search]) = Celsius"
    by (simp_all add: card_s0_def card_eval)
  show ?thesis using enter_bypasses_disabled [OF h, of Light] h p by simp
qed

text \<open>C25. The timer of a share is never cancelled
  (lines 218 and 221): from any card with a place name, after two shares in a
  row, whatever the two clipboard writes return, the second share's message
  is shown, the first share's timer clears it, and the second timer is still
  pending.\<close>

theorem share_timer_race:
  assumes "displayName s \<noteq> []"
  shows "shareMessage (run s [Share, Clipboard_result (length (pending s)) b1, Share,
       Clipboard_result (Suc (length (pending s))) b2])
      = (if b2 then share_copied_msg else share_failed_msg)
    \<and> shareMessage (run s [Share, Clipboard_result (length (pending s)) b1, Share,
       Clipboard_result (Suc (length (pending s))) b2, Timer_fired (length (pending s))]) = []
    \<and> pending (run s [Share, Clipboard_result (length (pending s)) b1, Share,
       Clipboard_result (Suc (length (pending s))) b2, Timer_fired (length (pending s))])
      = pending s @ [Await_timer]"
  using assms by (simp add: handleShare_def share_resume_def resume_def js_nth_def nth_append drop_at_def)

theorem share_timer_race_witness:
  "displayName card_london \<noteq> [] \<and> pending card_london = []
   \<and> shareMessage (run card_london [Share, Clipboard_result 0 True, Share, Clipboard_result 1 False])
     = share_failed_msg
   \<and> shareMessage (run card_london [Share, Clipboard_result 0 True, Share, Clipboard_result 1 False,
       Timer_fired 0]) = []"
proof -
  have h: "displayName card_london \<noteq> []" by (simp add: card_london_def)
  have p: "pending card_london = []" by code_simp
  show ?thesis using share_timer_race [OF h, of True False] h p by simp
qed

end
