(* ===== verification/Executions.thy ===== *)
theory Executions
  imports Card "HOL-Library.Multiset"
begin

text \<open>
  Two facts about the execution model of \<open>Card\<close>; they check the model
  (its request log and its step function), not the code.
  First, accounting of the calls to the outside world: every \<open>await\<close> of the
  code follows a call (\<open>fetch\<close>, \<open>getCurrentPosition\<close>,
  \<open>clipboard.writeText\<close>, \<open>setTimeout\<close>), so every pending continuation is
  matched by a request of its kind in the log \<open>issued\<close>; the matching is
  stated on multisets, so two pending forecasts for one key need two requests
  for that key (the duplicate requests of a search, C16, are two calls).
  Second, the inductive set \<open>reach\<close> of reachable states coincides with the
  states of the finite runs of \<open>step\<close> from a first render.
\<close>

text \<open>The kind of a call, with the parameters that identify its answer.\<close>

datatype call_kind = Forecast_call fetch_key | Geocode_call | Reverse_call coord coord
  | Position_call | Clipboard_call | Timer_call

fun request_kind :: "request \<Rightarrow> call_kind" where
  "request_kind (Forecast_req x y u) = Forecast_call (x, y, u)"
| "request_kind (Geocode_req _) = Geocode_call"
| "request_kind (Reverse_req x y) = Reverse_call x y"
| "request_kind Position_req = Position_call"
| "request_kind (Clipboard_req _) = Clipboard_call"
| "request_kind Timer_req = Timer_call"

fun task_kind :: "task \<Rightarrow> call_kind" where
  "task_kind (Await_forecast a) = Forecast_call (key_of a)"
| "task_kind (Await_geocode _) = Geocode_call"
| "task_kind (Await_reverse x y _) = Reverse_call x y"
| "task_kind (Await_position _) = Position_call"
| "task_kind Await_clipboard = Clipboard_call"
| "task_kind Await_timer = Timer_call"

text \<open>The accounting invariant.\<close>

definition calls_inv :: "card_state \<Rightarrow> bool" where
  "calls_inv s \<longleftrightarrow> mset (map task_kind (pending s)) \<subseteq># mset (map request_kind (issued s))"

subsection \<open>Lemmas\<close>

lemma mset_drop_at: "mset (drop_at i xs) \<subseteq># mset xs"
proof -
  have "mset (drop (Suc i) xs) \<subseteq># mset (drop i xs)"
    by (cases "drop i xs") (simp_all add: drop_Suc tl_drop [symmetric])
  then show ?thesis unfolding drop_at_def
    by (metis append_take_drop_id mset_append subset_mset.add_left_mono)
qed

lemma calls_inv_appendI:
  assumes "calls_inv s" and "issued t = issued s @ rs" and "pending t = pending s @ ts"
    and "map task_kind ts = map request_kind rs"
  shows "calls_inv t"
proof -
  have "mset (map task_kind ts) = mset (map request_kind rs)" using assms(4) by simp
  then show ?thesis using assms(1-3) unfolding calls_inv_def
    by (simp add: subset_mset.add_mono)
qed

lemma calls_inv_irrelevant [simp]:
  "calls_inv (s\<lparr>loading := b\<rparr>) = calls_inv s"
  "calls_inv (s\<lparr>error := m\<rparr>) = calls_inv s"
  "calls_inv (s\<lparr>coords := c\<rparr>) = calls_inv s"
  "calls_inv (s\<lparr>displayName := l\<rparr>) = calls_inv s"
  "calls_inv (s\<lparr>query := q\<rparr>) = calls_inv s"
  "calls_inv (s\<lparr>unit := u\<rparr>) = calls_inv s"
  "calls_inv (s\<lparr>shareMessage := m\<rparr>) = calls_inv s"
  by (simp_all add: calls_inv_def)

lemma mset_map_drop_at: "mset (map f (drop_at i xs)) \<subseteq># mset (map f xs)"
  unfolding mset_map by (rule image_mset_subseteq_mono [OF mset_drop_at])

lemma calls_inv_resume: "calls_inv s \<Longrightarrow> calls_inv (resume i s)"
  unfolding calls_inv_def resume_def
  using mset_map_drop_at [of task_kind i "pending s"] by simp

lemma calls_inv_fetch_start: "calls_inv s \<Longrightarrow> calls_inv (fetch_start a s)"
  by (rule calls_inv_appendI) (auto simp: fetch_start_issued fetch_start_pending key_of_def)

lemma calls_inv_fetch_finish: "calls_inv (fetch_finish a res s) = calls_inv s"
  by (simp add: calls_inv_def)

lemma calls_inv_coords_effect: "calls_inv s \<Longrightarrow> calls_inv (coords_effect s)"
  by (simp add: coords_effect_def calls_inv_fetch_start split: option.splits)

lemma calls_inv_geolocation_effect: "calls_inv s \<Longrightarrow> calls_inv (geolocation_effect s)"
  by (rule calls_inv_appendI [where rs = "if has_geolocation s then [Position_req] else []"
        and ts = "if has_geolocation s then [Await_position (unit s)] else []"])
     (simp_all add: geolocation_effect_def)

lemma calls_inv_position_success: "calls_inv s \<Longrightarrow> calls_inv (position_success u x y s)"
  unfolding position_success_def
  by (rule calls_inv_coords_effect, rule calls_inv_appendI [where rs = "[Reverse_req x y]" and ts = "[Await_reverse x y u]"]) simp_all

lemma calls_inv_handlers:
  assumes "calls_inv s"
  shows "calls_inv (toggle_unit s)" and "calls_inv (onSearch s)"
    and "calls_inv (reverse_resume x y u res s)"
    and "calls_inv (search_resume u g s)" and "calls_inv (handleShare s)"
    and "calls_inv (share_resume ok s)" and "calls_inv (position_error s)"
  using assms
  by (auto simp: toggle_unit_def onSearch_def reverse_resume_def search_resume_def
      handleShare_def share_resume_def position_error_def Let_def calls_inv_coords_effect
      calls_inv_geolocation_effect calls_inv_fetch_start intro: calls_inv_appendI split: sum.splits prod.splits)

lemma calls_inv_step: "calls_inv s \<Longrightarrow> calls_inv (step s e)"
  by (cases e) (auto simp: calls_inv_handlers calls_inv_resume calls_inv_fetch_finish calls_inv_position_success
      split: option.splits task.splits)

lemma calls_inv_initial: "calls_inv (initial_state g orig)"
  by (simp add: calls_inv_def initial_state_def geolocation_effect_def coords_effect_def)

lemma reach_calls_inv: "reach s \<Longrightarrow> calls_inv s"
  by (induction rule: reach.induct) (simp_all add: calls_inv_initial calls_inv_step)

lemma run_append: "run s (es @ es') = run (run s es) es'"
  by (induction es arbitrary: s) simp_all

subsection \<open>Properties of the executions\<close>

text \<open>In every reachable state each pending
  continuation is backed by a call of its own to the outside world: the
  multiset of the kinds of the pending continuations (with the key of each
  pending forecast and the coordinates of each pending reverse lookup) is
  contained in the multiset of the calls made, so a forecast answer can only
  arrive for a request that was sent, once per request.\<close>

theorem pending_calls_issued:
  assumes "reach s"
  shows "mset (map task_kind (pending s)) \<subseteq># mset (map request_kind (issued s))"
  using reach_calls_inv [OF assms] by (simp add: calls_inv_def)

theorem pending_calls_issued_witness:
  "reach (run card_g0 [Query_change ''Chennai'', Search])
   \<and> mset (map task_kind (pending (run card_g0 [Query_change ''Chennai'', Search])))
       = {#Position_call, Geocode_call#}"
proof -
  have h: "reach (run card_g0 [Query_change ''Chennai'', Search])"
    by (rule reach_run) (simp add: card_g0_def reach.reach_init)
  have "mset (map task_kind (pending (run card_g0 [Query_change ''Chennai'', Search])))
       = {#Position_call, Geocode_call#}"
    by (simp add: card_g0_def card_eval)
  then show ?thesis using pending_calls_issued [OF h] h by simp
qed

text \<open>The reachable states are exactly the states of
  the finite executions: the inductive set \<open>reach\<close> and the executable
  \<open>run\<close> from a first render agree.\<close>

theorem reach_iff_run: "reach s \<longleftrightarrow> (\<exists>g orig es. s = run (initial_state g orig) es)"
proof
  assume "reach s"
  then show "\<exists>g orig es. s = run (initial_state g orig) es"
  proof (induction rule: reach.induct)
    case (reach_init g orig)
    have "initial_state g orig = run (initial_state g orig) []" by simp
    then show ?case by blast
  next
    case (reach_step s e)
    then obtain g orig es where "s = run (initial_state g orig) es" by blast
    then have "step s e = run (initial_state g orig) (es @ [e])" by (simp add: run_append)
    then show ?case by blast
  qed
next
  assume "\<exists>g orig es. s = run (initial_state g orig) es"
  then show "reach s" by (auto intro: reach_run reach.reach_init)
qed

end
