(* ===== verification/Spec2Isabelle.thy ===== *)
theory Spec2Isabelle
  imports View Theme Status Liveness Controls Executions
begin

text \<open>
  \<^bold>\<open>A verification model of Weather-Now.\<close>

  \<^emph>\<open>The program.\<close> A single-page React widget in two source files.
  \<open>src/src/App.jsx\<close> holds the theme (light/dark, persisted in
  \<open>localStorage\<close>), the background chosen from the weather \<open>meta\<close>
  (\<open>gradientFor\<close>) and renders \<open>WeatherCard\<close>, passing \<open>setMeta\<close> as
  \<open>onMetaChange\<close>.  \<open>src/src/components/WeatherCard.jsx\<close> holds the core:
  the React state of the card (query, place name, unit, loading flag, error,
  coordinates, current conditions, daily forecast, share message) and the ref
  \<open>lastFetchRef\<close>; the fetch coordinator \<open>fetchWeatherAt\<close>; the location
  resolver \<open>resolveCity\<close>/\<open>reverseLabel\<close>/\<open>formatLocationLabel\<close>; two effects
  (geolocation on mount, re-fetch on coordinates or unit change); the handlers
  \<open>onSearch\<close>, the unit toggle and \<open>handleShare\<close>; and the presentation
  helpers \<open>iconFor\<close>, \<open>labelFor\<close> and the JSX.  The components interact
  through shared React state, callbacks of the platform (geolocation,
  \<open>fetch\<close>, clipboard, timers) and the \<open>onMetaChange\<close> callback to \<open>App\<close>.

  \<^emph>\<open>Theories.\<close>
  \<^item> \<open>Prelude\<close>: JavaScript idioms on byte strings (truthiness,
    \<open>filter(Boolean)\<close>, \<open>join\<close>, \<open>trim\<close>, \<open>split(",")[0]\<close>, array reads that yield
    \<open>undefined\<close>) and the outcome type \<open>'j response\<close> of a \<open>fetch\<close> call
    (rejected, or a status flag and a body that parses or not).
  \<^item> \<open>Location\<close>: \<open>formatLocationLabel\<close> (lines 60--66), \<open>resolveCity\<close>
    (132--146, throws become \<open>Inl\<close> of \<open>geo_error\<close>), \<open>reverseLabel\<close> (148--159,
    every failure becomes \<open>None\<close>).  Lemmas: the not-found condition, agreement
    of the two lookups on labels, the label format.
  \<^item> \<open>Share\<close>: \<open>share_city\<close>, \<open>share_url\<close> and \<open>encodeURIComponent\<close> (the
    library function, byte-wise over UTF-8) from \<open>handleShare\<close> (209--222),
    with a decoder; lemmas: the decoder inverts the encoding and the output
    alphabet, from which \<open>Card\<close> proves the properties of the link
    \<open>handleShare\<close> writes.
  \<^item> \<open>Fetch\<close>: the state record \<open>card_state\<close> (lines 68--78 plus the request
    log, the pending continuations and the platform facts), the JSON answer
    types, and \<open>fetchWeatherAt\<close> (92--130) split at its \<open>await\<close> into
    \<open>fetch_start\<close> (dedup guard on the last completed key, loading on, error
    cleared, request issued, \<open>Await_forecast\<close> task left) and \<open>fetch_finish\<close>
    (success or failure, loading off).  Also the spec's abstract session and
    its atomic \<open>spec_fetch\<close> (spec section 4.2).  Lemmas: dedup after a
    completed fetch, failure and success branches, a retry after a failure,
    duplicate requests while a fetch is in flight.
  \<^item> \<open>Card\<close>: the effects (\<open>geolocation_effect\<close>, lines 162--179;
    \<open>coords_effect\<close>, 181--185), the first render \<open>initial_state\<close>, the
    handlers (\<open>toggle_unit\<close>, \<open>onSearch\<close> and \<open>search_resume\<close>,
    \<open>position_success\<close>/\<open>position_error\<close>/\<open>reverse_resume\<close>, \<open>handleShare\<close>
    and \<open>share_resume\<close>), the event type, the deterministic \<open>step\<close>, its
    iteration \<open>run\<close> and the inductive set \<open>reach\<close> of reachable states.
    Lemmas: two invariants by rule induction (data and remembered key agree and
    the key was requested; loading is on only while a geocoding or forecast
    continuation is pending), the behaviour of each handler on each branch,
    the blank-query guard, and the share link as written to the clipboard.
  \<^item> \<open>Codes\<close>: \<open>iconFor\<close> and \<open>labelFor\<close> (lines 17--57) and \<open>gradientFor\<close>
    (\<open>App.jsx\<close> 8--47) as \<open>if\<close> chains over the code groups.  Lemmas: which
    codes are named, agreement of icons, labels and backgrounds.
  \<^item> \<open>Theme\<close>: the theme state of \<open>App\<close> (51--64, 98), \<open>localStorage\<close> as a
    field, \<open>cx\<close> and the page classes (6, 69--84), the header with the theme
    button and the footer (86--127).  Lemmas: the stored theme
    round-trips through a reload; invalid stored values defer to the system
    preference.
  \<^item> \<open>Dates\<close>: the library calls \<open>new Date(s)\<close> on the date strings of the
    forecast service (date-only as UTC, date-time as local time) and
    \<open>toLocaleDateString("en-GB", ...)\<close> with the card's options, in a browser
    whose time zone is a fixed offset \<open>tz\<close>; days-from-civil conversions with
    floor division.
  \<^item> \<open>View\<close>: what the card shows as a function of the state (251,
    347--500): error banner, loader, current panel, the seven-day grid built
    with the index, the tip, and the dates of the grid and the panel.
    Lemmas: index alignment of the grid, nothing stale shown while loading,
    the default icon of a missing code, the date shift west of UTC.
  \<^item> \<open>Status\<close>: the spec's coordinator machine (Idle, Loading, Ready,
    Failed) as an inductive step relation, the status \<open>status_of\<close> read off a
    card state, and the simulation: every step of a reachable state stutters,
    follows the spec's machine or enters Failed.  An auxiliary invariant (no
    forecast in flight while Idle) is proved by rule induction.
  \<^item> \<open>Liveness\<close>: \<open>drain\<close>, the outside world answering every pending call
    with a failure, defined by well-founded recursion on the weight of the
    pending calls; progress from every reachable state, and the completion
    of a search and of the geolocation flow whose answers succeed.
  \<^item> \<open>Controls\<close>: \<open>cardClass\<close> and the controls (lines 79--91, 271--345) as a
    view of the state, and \<open>dispatch\<close>/\<open>ui_step\<close>, which turn typing, Enter
    and clicks into events of the card (a disabled button fires no click).
  \<^item> \<open>Executions\<close>: facts about the execution model itself, not about the
    code: every pending continuation has its own entry in the request log
    (on multisets), and the inductive \<open>reach\<close> equals the runs of \<open>step\<close>.
  \<^item> \<open>Spec2Isabelle\<close> (this theory): the page \<open>App\<close> renders (\<open>page\<close>,
    lines 78--117), composing the theme, the header, the card's controls and
    view and the background from the \<open>meta\<close> the card reports, and properties
    that span components: the
    refinement of the spec's atomic fetch by the code run without
    interleaving, the departures from the spec under interleaving (each a
    theorem over all states, with a concrete execution as its witness), and
    the city of the shared link.

  \<^emph>\<open>How state and concurrency are modelled.\<close> JavaScript runs one
  continuation at a time; an \<open>async\<close> function runs synchronously up to its
  first \<open>await\<close> on the outside world.  Each handler is modelled up to that
  point and appends a \<open>task\<close> (with the values its closure captured, e.g. the
  \<open>unit\<close> at the time of the click) to \<open>pending\<close> and a \<open>request\<close> to
  \<open>issued\<close>.  An event \<open>Forecast_response i r\<close> (and its kin) resumes the
  \<open>i\<close>-th pending task with the answer \<open>r\<close> chosen by the environment, so every
  order of completion is one run of \<open>step\<close>.  React batches state updates and
  runs the effects after the render that follows a handler, before the next
  answer of the network arrives; effects run in declaration order.  A
  \<open>fetch\<close> followed by \<open>res.json()\<close> is one suspension, since nothing happens
  between the two.  No fuel is needed: every definition is total (see
  below), and \<open>step\<close> is executable, so concrete runs evaluate by \<open>simp\<close> or
  \<open>code_simp\<close>.  Coordinates are \<open>real\<close> (JavaScript numbers
  other than NaN, which the services do not return); strings are UTF-8 byte
  strings, which agrees with JavaScript on every ASCII separator the code
  uses; \<open>trim\<close> is modelled on ASCII white space only.

  \<^emph>\<open>What the development shows.\<close> The dedup guard suppresses a fetch only
  once the same key has completed successfully (C1), a failed key is fetched
  again (C13), and two overlapping fetches with one key both reach the network
  (C17); a search sends its forecast request twice (C16).  Run without
  interleaving, \<open>fetchWeatherAt\<close> implements the spec's atomic fetch (C2);
  failures keep the data shown (C3); a success installs data, key and meta but
  does not touch the error, so the error of a concurrent failure stays next to
  fresh data (C4).  In every reachable state data and remembered key agree and
  the key was requested (C5), and loading is never on with nothing in flight
  (C6).  The card simulates the spec's coordinator machine up to one extra
  transition: Failed can be entered without a fetch, but only by an event
  that writes an error (C7), and every Ready card with a position request in
  flight takes it when the request is denied (C23).  From every reachable
  state the outside world can bring the card to rest by answering every
  pending call, keeping the data shown (C8); a search whose answers succeed
  ends with the place and its conditions shown and no error (C9), and so does
  the geolocation flow (C33).  The handlers behave as the spec's section 8
  asks for failed lookups (C10, C27), unit toggles without and with
  coordinates (C11, C12), denied geolocation (C14), failed reverse lookups
  (C15) and blank queries (C36).  Interleaved, the code departs from the
  spec, and each departure is a theorem over all states: every unit toggle
  re-reads the device position (C18) and replaces whatever place is shown,
  a searched one included, by the device location (C19); answers win in
  completion order, so an answer in the old unit is shown under the new
  unit's label (C20); a search whose forecasts fail leaves the previous
  conditions under the new name (C22); Enter searches although the search
  button is disabled (C24); an earlier share's timer clears a later share's
  message (C25).  The icon and label tables classify codes alike (C21) and
  the background follows the icon groups (C34); an invalid stored theme
  defers to the system preference (C35) and the theme survives a reload
  (C37).  The resolver's two lookups agree on labels and the label has the
  spec's format (C28, C29), so the shared link names the place (C26); the
  link \<open>handleShare\<close> writes decodes to the city (C31) and keeps it in one
  path segment (C32).  The page background follows the answers the card
  reports through \<open>onMetaChange\<close> (C30); and the view aligns the daily arrays
  by index (C38), shifts every date of the grid to the previous day west of
  UTC while the panel's date is right (C39), and draws a sun for a missing
  code (C40).  Further lemmas, not listed as claims, give the fall-back icon
  of unknown codes, the rounding bounds of the panel, the length of the drain
  loop, that conditions are hidden while loading, and the facts of
  \<open>Executions\<close> about the execution model.

  \<^emph>\<open>Bounds and fuel.\<close> No definition needs fuel: every function is
  structural except \<open>decimal\<close> (recursion on \<open>n div 10\<close>) and \<open>drain\<close>,
  whose termination is proved with the weight of the pending calls (a failed
  reverse lookup and a failed clipboard write each cause one more call, so
  they weigh 2).  JavaScript numbers are reals and integers; no width-bounded
  arithmetic occurs in the code.

  \<^emph>\<open>Not modelled.\<close> The \<open>framer-motion\<close> props, the drawing of the icon
  components of \<open>react-icons\<close> and of the \<open>Loader\<close>'s SVG, and the
  layout-only class names of the panels are presentation without state or
  behaviour; the class names that depend on the theme or the state are
  modelled.  The sunrise and sunset times (\<open>toLocaleTimeString([], ...)\<close>)
  are shown in the browser's default locale, which the code does not fix, so
  they are carried as raw strings.  Time zones are fixed offsets (no daylight
  saving), and \<open>new Date\<close> is modelled on the two string shapes the service
  returns, every other string being an invalid date.  React StrictMode's
  double effects (the entry file is not in \<open>src/\<close>) and the URL strings of
  the requests (modelled by their parameters) are left out, as is \<open>trim\<close> on
  non-ASCII white space.  Elapsed time is not modelled: \<open>step\<close> lets any
  pending timer fire, an over-approximation of the 3 s timeouts of
  \<open>handleShare\<close>, which expire in the order they were set; C25 fires them
  in that order.

  \<^emph>\<open>Open questions.\<close> The spec recommends per-request sequence numbers
  for the ordering guarantee of its section 5; the code has none, so the
  model shows the violation (C20) rather than a design the code does not
  implement.  A strict simulation of the status machine for schedules with
  one request in flight at a time is left open; C7 bounds the departure to
  the events that write an error.
\<close>

subsection \<open>The page\<close>

text \<open>What \<open>App\<close> renders (\<open>App.jsx\<close> lines 78--117): the page class from
  the theme and the \<open>meta\<close> cell, which the card writes through
  \<open>onMetaChange={setMeta}\<close> (here the field \<open>meta\<close> of the card state), the
  header and footer, and the card, which receives the theme as a prop.\<close>

record page_view =
  page_class :: string
  page_chrome :: chrome_view
  page_card_class :: string
  page_controls :: controls_view
  page_card :: card_view

definition page :: "app_state \<Rightarrow> card_state \<Rightarrow> nat \<Rightarrow> page_view" where
  "page a s year =
     \<lparr>page_class = root_class (theme a) (meta s), page_chrome = chrome (theme a) year,
      page_card_class = cardClass (theme a), page_controls = controls (theme a) s,
      page_card = render s\<rparr>"

subsection \<open>Scenario data\<close>

definition weather_celsius :: current_weather where
  "weather_celsius = \<lparr>temperature = 12, weathercode = 3, is_day = 1, windspeed = 8,
     winddirection = None, time = ''2025-01-01T09:00''\<rparr>"

definition weather_fahrenheit :: current_weather where
  "weather_fahrenheit = weather_celsius\<lparr>temperature := 53.6\<rparr>"

text \<open>Start with geolocation at Chennai, complete its fetches, then search
  London and complete its fetches.\<close>

definition trace_search_london :: "event list" where
  "trace_search_london =
     [Position_ok 0 13.08 80.27, Reverse_response 0 (geo_ok example_chennai),
      Forecast_response 0 (forecast_ok weather_celsius), Forecast_response 0 (forecast_ok weather_celsius),
      Query_change ''London'', Search, Geocode_response 0 (geo_ok example_london),
      Forecast_response 0 (forecast_ok weather_celsius), Forecast_response 0 (forecast_ok weather_celsius)]"

text \<open>Search London and toggle to Fahrenheit while both Celsius requests
  are in flight; the Fahrenheit answer arrives first.\<close>

definition trace_toggle_then_fahrenheit :: "event list" where
  "trace_toggle_then_fahrenheit =
     [Query_change ''London'', Search, Geocode_response 0 (geo_ok example_london),
      Toggle_unit, Forecast_response 2 (forecast_ok weather_fahrenheit)]"

text \<open>Search Chennai and complete, then start a search for London.\<close>

definition trace_second_search :: "event list" where
  "trace_second_search =
     [Query_change ''Chennai'', Search, Geocode_response 0 (geo_ok example_chennai),
      Forecast_response 0 (forecast_ok weather_celsius), Forecast_response 0 (forecast_ok weather_celsius),
      Query_change ''London'', Search]"

subsection \<open>Lemmas\<close>

lemma page_class_page: "page_class (page a s y) = root_class (theme a) (meta s)"
  by (simp add: page_def)

subsection \<open>Refinement of the specification's fetch\<close>

text \<open>C2. Without interleaving, \<open>fetchWeatherAt\<close> implements the atomic fetch
  of the specification: if the key is the last completed one nothing
  happens; otherwise starting the fetch and delivering the answer to that very
  request yields, on the session state, what \<open>spec_fetch\<close> prescribes,
  including the cleared error on success.\<close>

theorem fetch_refines_spec:
  "session_of (if lastFetch s = Some (key_of a) then fetch_start a s
               else step (fetch_start a s) (Forecast_response (length (pending s)) res))
   = spec_fetch a res (session_of s)"
proof (cases "lastFetch s = Some (key_of a)")
  case True
  then show ?thesis by (simp add: fetch_start_def spec_fetch_def session_of_def)
next
  case False
  then have "step (fetch_start a s) (Forecast_response (length (pending s)) res) =
      fetch_finish a res (s\<lparr>loading := True, error := [],
        issued := issued s @ [Forecast_req (lat a) (lon a) (unitToUse a)]\<rparr>)"
    by (simp add: fetch_start_def resume_def)
  with False show ?thesis
    by (simp add: spec_fetch_def session_of_def fetch_finish_def split: option.splits prod.splits)
qed

subsection \<open>Where the code departs from the specification\<close>

text \<open>C19. A unit toggle replaces whatever place the card shows (a
  searched city included) by the device location: the toggle re-runs the
  geolocation effect, and whatever position the device reports and whatever
  the reverse lookup answers, the coordinates become the device position and
  the place name the reverse label or ``Live location'', although the user
  only changed the unit (spec section 8: ``display label unchanged'').\<close>

theorem unit_toggle_replaces_searched_place:
  assumes "has_geolocation s"
  shows "js_nth (pending (step s Toggle_unit)) (length (pending s)) = Some (Await_position (toggled (unit s)))
    \<and> (\<exists>j. js_nth (pending (step (step s Toggle_unit) (Position_ok (length (pending s)) x y))) j
             = Some (Await_reverse x y (toggled (unit s)))
         \<and> displayName (run s [Toggle_unit, Position_ok (length (pending s)) x y, Reverse_response j res])
             = (if truthy (reverseLabel res) then the (reverseLabel res) else live_location)
         \<and> coords (run s [Toggle_unit, Position_ok (length (pending s)) x y, Reverse_response j res])
             = Some (x, y))"
proof -
  let ?t = "step s Toggle_unit" and ?i = "length (pending s)"
  obtain F where t: "pending ?t = pending s @ Await_position (toggled (unit s)) # F"
    using assms by (simp add: toggle_unit_pending)
  let ?r = "resume ?i ?t"
  have p: "step ?t (Position_ok ?i x y) = position_success (toggled (unit s)) x y ?r"
    using t by simp
  have j: "js_nth (pending (step ?t (Position_ok ?i x y))) (length (pending ?r))
      = Some (Await_reverse x y (toggled (unit s)))"
    and c: "coords (step ?t (Position_ok ?i x y)) = Some (x, y)"
    using position_success_reverse p by simp_all
  show ?thesis
    using t j c reverse_resume_label [of x y "toggled (unit s)" res]
    by (auto simp: resume_def intro!: exI [of _ "length (pending ?r)"])
qed

theorem unit_toggle_replaces_searched_place_witness:
  "has_geolocation (run card_g0 trace_search_london)
   \<and> displayName (run card_g0 trace_search_london) = formatLocationLabel (Some example_london)
   \<and> (\<exists>j. displayName (run (run card_g0 trace_search_london)
          [Toggle_unit, Position_ok (length (pending (run card_g0 trace_search_london))) 13.08 80.27,
           Reverse_response j (geo_ok example_chennai)]) = formatLocationLabel (Some example_chennai))"
proof -
  have h: "has_geolocation (run card_g0 trace_search_london)" by code_simp
  have l: "displayName (run card_g0 trace_search_london) = formatLocationLabel (Some example_london)"
    by code_simp
  have r: "reverseLabel (geo_ok example_chennai) = Some (formatLocationLabel (Some example_chennai))"
    "truthy (Some (formatLocationLabel (Some example_chennai)))"
    by code_simp+
  obtain j where
    "displayName (run (run card_g0 trace_search_london)
        [Toggle_unit, Position_ok (length (pending (run card_g0 trace_search_london))) 13.08 80.27,
         Reverse_response j (geo_ok example_chennai)])
     = (if truthy (reverseLabel (geo_ok example_chennai)) then the (reverseLabel (geo_ok example_chennai))
        else live_location)"
    using unit_toggle_replaces_searched_place [OF h, of "13.08" "80.27" "geo_ok example_chennai"] by blast
  then have "displayName (run (run card_g0 trace_search_london)
        [Toggle_unit, Position_ok (length (pending (run card_g0 trace_search_london))) 13.08 80.27,
         Reverse_response j (geo_ok example_chennai)]) = formatLocationLabel (Some example_chennai)"
    by (simp only: r if_True option.sel)
  with h l show ?thesis by blast
qed

text \<open>C20. Answers are applied in completion order (spec section 5 asks for
  the later-initiated one to win): the answer to any pending forecast
  request made in a unit other than the current one is installed when it
  arrives, and the panel shows its temperature under the current unit's
  label, which is not the unit of the request.\<close>

theorem out_of_order_completion_unit_mismatch:
  assumes "js_nth (pending s) i = Some (Await_forecast a)" and "unitToUse a \<noteq> unit s"
    and "forecast_result res = Some (cw, d)"
  shows "data (step s (Forecast_response i res)) = Some cw
    \<and> lastFetch (step s (Forecast_response i res)) = Some (key_of a)
    \<and> v_current (render (step s (Forecast_response i res)))
        = Some (current_panel (step s (Forecast_response i res)) cw)
    \<and> cv_temp (current_panel (step s (Forecast_response i res)) cw) = js_round (temperature cw)
    \<and> cv_unit (current_panel (step s (Forecast_response i res)) cw) = unitLabel (unit s)
    \<and> unitLabel (unit s) \<noteq> unitLabel (unitToUse a)"
  using assms
  by (cases "unit s"; cases "unitToUse a")
     (simp_all add: fetch_finish_def resume_def render_def current_panel_def unitLabel_def)

theorem out_of_order_completion_unit_mismatch_witness:
  "js_nth (pending (run card_s0 trace_toggle_then_fahrenheit)) 0
     = Some (Await_forecast \<lparr>lat = 51.51, lon = -0.13, unitToUse = Celsius,
                              placeLabel = Some (formatLocationLabel (Some example_london))\<rparr>)
   \<and> unit (run card_s0 trace_toggle_then_fahrenheit) = Fahrenheit
   \<and> data (run card_s0 trace_toggle_then_fahrenheit) = Some weather_fahrenheit
   \<and> forecast_result (forecast_ok weather_celsius) = Some (weather_celsius, None)
   \<and> cv_temp (current_panel (step (run card_s0 trace_toggle_then_fahrenheit)
        (Forecast_response 0 (forecast_ok weather_celsius))) weather_celsius) = 12
   \<and> cv_unit (current_panel (step (run card_s0 trace_toggle_then_fahrenheit)
        (Forecast_response 0 (forecast_ok weather_celsius))) weather_celsius) = unitLabel Fahrenheit"
proof -
  have h: "js_nth (pending (run card_s0 trace_toggle_then_fahrenheit)) 0
     = Some (Await_forecast \<lparr>lat = 51.51, lon = -0.13, unitToUse = Celsius,
                              placeLabel = Some (formatLocationLabel (Some example_london))\<rparr>)"
    "unitToUse \<lparr>lat = 51.51, lon = -0.13, unitToUse = Celsius,
        placeLabel = Some (formatLocationLabel (Some example_london))\<rparr>
       \<noteq> unit (run card_s0 trace_toggle_then_fahrenheit)"
    "forecast_result (forecast_ok weather_celsius) = Some (weather_celsius, None)"
    by code_simp+
  have u: "unit (run card_s0 trace_toggle_then_fahrenheit) = Fahrenheit"
    "data (run card_s0 trace_toggle_then_fahrenheit) = Some weather_fahrenheit"
    by code_simp+
  have t: "js_round (temperature weather_celsius) = 12"
    by (simp add: weather_celsius_def js_round_def)
  show ?thesis using out_of_order_completion_unit_mismatch [OF h] h u t by simp
qed

text \<open>C22. \<open>onSearch\<close> sets the place name and coordinates before the
  forecast is fetched (lines 193--194): for every card whose only call in
  flight is a lookup, when the lookup succeeds and both forecast requests for
  the new place fail, the previous conditions and their remembered key stay
  on screen under the new place's name and coordinates.\<close>

theorem failed_search_fetch_mislabels:
  assumes "pending s = [Await_geocode u]" and "unit s = u" and "resolveCity res = Inr (x, y, l)"
    and "lastFetch s \<noteq> Some (x, y, u)"
    and "forecast_result r1 = None" and "forecast_result r2 = None"
  shows "displayName (run s [Geocode_response 0 res, Forecast_response 0 r1, Forecast_response 0 r2]) = l
    \<and> coords (run s [Geocode_response 0 res, Forecast_response 0 r1, Forecast_response 0 r2]) = Some (x, y)
    \<and> data (run s [Geocode_response 0 res, Forecast_response 0 r1, Forecast_response 0 r2]) = data s
    \<and> lastFetch (run s [Geocode_response 0 res, Forecast_response 0 r1, Forecast_response 0 r2]) = lastFetch s
    \<and> error (run s [Geocode_response 0 res, Forecast_response 0 r1, Forecast_response 0 r2]) = fetch_failed_msg
    \<and> \<not> loading (run s [Geocode_response 0 res, Forecast_response 0 r1, Forecast_response 0 r2])
    \<and> pending (run s [Geocode_response 0 res, Forecast_response 0 r1, Forecast_response 0 r2]) = []"
  using assms
  by (simp add: search_resume_def Let_def coords_effect_def state_simps key_of_def resume_def
      js_nth_def drop_at_def fetch_finish_def)

theorem failed_search_fetch_mislabels_witness:
  "pending (run card_s0 trace_second_search) = [Await_geocode Celsius]
   \<and> displayName (run (run card_s0 trace_second_search)
       [Geocode_response 0 (geo_ok example_london), Forecast_response 0 Transport_error,
        Forecast_response 0 Transport_error]) = formatLocationLabel (Some example_london)
   \<and> data (run (run card_s0 trace_second_search)
       [Geocode_response 0 (geo_ok example_london), Forecast_response 0 Transport_error,
        Forecast_response 0 Transport_error]) = Some weather_celsius"
proof -
  have h: "pending (run card_s0 trace_second_search) = [Await_geocode Celsius]"
    "unit (run card_s0 trace_second_search) = Celsius"
    "resolveCity (geo_ok example_london) = Inr (51.51, -0.13, formatLocationLabel (Some example_london))"
    "lastFetch (run card_s0 trace_second_search) \<noteq> Some (51.51, -0.13, Celsius)"
    "forecast_result Transport_error = None" "forecast_result Transport_error = None"
    by code_simp+
  have d: "data (run card_s0 trace_second_search) = Some weather_celsius" by code_simp
  show ?thesis using failed_search_fetch_mislabels [OF h] h d by simp
qed

subsection \<open>End-to-end behaviour\<close>

text \<open>C30. The card and the page interact through
  \<open>onMetaChange\<close>: when a forecast answer arrives, the page background is
  the gradient of the answer's weather code and day flag in the page's theme
  if the answer is usable, and stays as it was if the fetch failed.\<close>

theorem page_background_follows_answer:
  assumes "js_nth (pending s) i = Some (Await_forecast x)"
  shows "page_class (page a (step s (Forecast_response i r)) y) =
     (case forecast_result r of
        Some (cw, d) \<Rightarrow> root_class (theme a) \<lparr>code = weathercode cw, isDay = is_day cw\<rparr>
      | None \<Rightarrow> page_class (page a s y))"
  using assms by (simp add: page_class_page resume_def fetch_finish_def split: option.splits prod.splits)

theorem page_background_follows_answer_witness:
  "js_nth (pending (run card_s0 [Query_change ''London'', Search, Geocode_response 0 (geo_ok example_london)])) 0
     = Some (Await_forecast \<lparr>lat = 51.51, lon = -0.13, unitToUse = Celsius,
                               placeLabel = Some (formatLocationLabel (Some example_london))\<rparr>)
   \<and> page_class (page \<lparr>theme = Dark, stored = Some ''dark''\<rparr>
       (run card_s0 [Query_change ''London'', Search, Geocode_response 0 (geo_ok example_london),
                     Forecast_response 0 (forecast_ok weather_celsius)]) 2025)
     = root_class Dark \<lparr>code = 3, isDay = 1\<rparr>"
proof -
  have h: "js_nth (pending (run card_s0 [Query_change ''London'', Search, Geocode_response 0 (geo_ok example_london)])) 0
     = Some (Await_forecast \<lparr>lat = 51.51, lon = -0.13, unitToUse = Celsius,
                               placeLabel = Some (formatLocationLabel (Some example_london))\<rparr>)"
    by code_simp
  have r: "forecast_result (forecast_ok weather_celsius) = Some (weather_celsius, None)"
    by (simp add: forecast_result_def forecast_ok_def)
  show ?thesis
    using page_background_follows_answer [OF h, of "\<lparr>theme = Dark, stored = Some ''dark''\<rparr>" "forecast_ok weather_celsius" 2025] h r
    by (simp add: weather_celsius_def page_class_page)
qed

text \<open>C26. The shared link names the place: for a geocoded place whose name
  has no comma, the city that \<open>handleShare\<close> cuts from the label is exactly the
  place name, whatever region and country follow.\<close>

theorem shared_link_names_place:
  assumes "truthy (name r)" and "CHR '','' \<notin> set (the (name r))"
  shows "share_city (formatLocationLabel (Some r)) = the (name r)"
proof -
  obtain rest where "formatLocationLabel (Some r) = join label_sep (the (name r) # rest)"
    by (simp only: formatLocationLabel_parts append_Cons append_Nil filter_truthy_Cons_truthy [OF assms(1)])
  then show ?thesis
    using assms(2) join_first_segment [of "CHR '',''" "the (name r)" label_sep rest]
    by (simp add: share_city_def split_first_def)
qed

theorem shared_link_names_place_witness:
  "truthy (name example_london) \<and> CHR '','' \<notin> set (the (name example_london)) \<and>
   share_city (formatLocationLabel (Some example_london)) = ''London''"
proof -
  have h: "truthy (name example_london)" "CHR '','' \<notin> set (the (name example_london))"
    by (simp_all add: example_london_def)
  show ?thesis using shared_link_names_place [OF h] h by (simp add: example_london_def)
qed

end
